theory Spec2Isabelle
  imports Complex_Main "HOL-Library.AList"
begin

section \<open>Common Python notions\<close>

text \<open>
  Python floats are modelled as exact reals and Python ints as \<open>int\<close>. Every exception the
  embedded functions can raise is a value of \<open>py_error\<close>; a function that may raise returns
  \<open>py_error + 'a\<close> with the exception on the left. A dictionary whose iteration order or whose
  missing keys matter is an association list in insertion order, read with \<open>map_of\<close>.
\<close>

datatype py_error = KeyError | ZeroDivisionError | ValueError | TypeError

definition py_bind :: "py_error + 'a \<Rightarrow> ('a \<Rightarrow> py_error + 'b) \<Rightarrow> py_error + 'b" where
  "py_bind m f = (case m of Inl e \<Rightarrow> Inl e | Inr v \<Rightarrow> f v)"

text \<open>\<open>d[k]\<close> on a dictionary: \<open>KeyError\<close> when the key is absent.\<close>

definition py_getitem :: "('k \<times> 'v) list \<Rightarrow> 'k \<Rightarrow> py_error + 'v" where
  "py_getitem d k = (case map_of d k of None \<Rightarrow> Inl KeyError | Some v \<Rightarrow> Inr v)"

text \<open>Python's \<open>round(x)\<close>: to the nearest integer, a tie going to the even neighbour.\<close>

definition py_round :: "real \<Rightarrow> int" where
  "py_round x =
     (let f = \<lfloor>x\<rfloor>; d = x - of_int f
      in if d < 1 / 2 then f else if 1 / 2 < d then f + 1 else if even f then f else f + 1)"

text \<open>Python's \<open>round(x, 2)\<close>, on exact reals.\<close>

definition py_round2 :: "real \<Rightarrow> real" where
  "py_round2 x = of_int (py_round (x * 100)) / 100"

text \<open>
  \<open>max(items, key=lambda x: x[1])\<close>: the first item whose value no later item exceeds;
  \<open>ValueError\<close> on an empty sequence.
\<close>

fun max_by_value :: "('k \<times> real) \<Rightarrow> ('k \<times> real) list \<Rightarrow> ('k \<times> real)" where
  "max_by_value best [] = best"
| "max_by_value best (x # xs) = max_by_value (if snd best < snd x then x else best) xs"

definition py_max_item :: "('k \<times> real) list \<Rightarrow> py_error + ('k \<times> real)" where
  "py_max_item items = (case items of [] \<Rightarrow> Inl ValueError | x # xs \<Rightarrow> Inr (max_by_value x xs))"

text \<open>
  \<open>numpy.var\<close> (population variance, \<open>ddof = 0\<close>) and \<open>numpy.mean\<close>. Both are only
  applied to non-empty lists below.
\<close>

definition np_mean :: "real list \<Rightarrow> real" where
  "np_mean xs = sum_list xs / of_nat (length xs)"

definition np_var :: "real list \<Rightarrow> real" where
  "np_var xs = np_mean (map (\<lambda>x. (x - np_mean xs)\<^sup>2) xs)"

section \<open>Forecasts and the forecast validator (ai\_prediction\_service.py)\<close>

record score =
  home :: int
  away :: int

text \<open>
  The dictionaries that carry a \<open>score_prediction\<close> share that key: the stored prediction
  data of the settlement evaluator, a provider's forecast, and the ensemble forecast, which has
  all keys of a forecast and three more.
\<close>

record scored =
  score_prediction :: score

record forecast = scored +
  predicted_outcome :: string
  confidence :: real
  reasoning :: "string list"
  key_factors :: "string list"
  risk_assessment :: string

record ensemble = forecast +
  model_agreement :: bool
  consistency_score :: real
  outcome_probabilities :: "(string \<times> real) list"

text \<open>
  The JSON object parsed from a provider's answer: each key may be absent (\<open>None\<close>).
\<close>

record raw_prediction =
  raw_predicted_outcome :: "string option"
  raw_score_prediction :: "score option"
  raw_confidence :: "real option"
  raw_reasoning :: "string list option"
  raw_key_factors :: "string list option"
  raw_risk_assessment :: "string option"

text \<open>
  \<open>_validate_and_format_prediction\<close>: the four required keys must be present and the
  confidence must lie in \<open>[0, 1]\<close>; nothing else is checked.
\<close>

definition validate_and_format_prediction :: "raw_prediction \<Rightarrow> py_error + forecast" where
  "validate_and_format_prediction prediction =
     (case (raw_predicted_outcome prediction, raw_score_prediction prediction,
            raw_confidence prediction, raw_reasoning prediction) of
        (Some po, Some sp, Some c, Some r) \<Rightarrow>
          if c < 0 \<or> 1 < c then Inl ValueError
          else Inr \<lparr>score_prediction = sp, predicted_outcome = po, confidence = c, reasoning = r,
                    key_factors = (case raw_key_factors prediction of None \<Rightarrow> [] | Some k \<Rightarrow> k),
                    risk_assessment =
                      (case raw_risk_assessment prediction of None \<Rightarrow> ''medium'' | Some k \<Rightarrow> k)\<rparr>
      | _ \<Rightarrow> Inl ValueError)"

text \<open>
  \<open>get_gpt4_prediction\<close> and \<open>get_deepseek_prediction\<close>, from the parsed answer on: any
  exception of the validator is caught and logged, and the provider yields \<open>None\<close>.
\<close>

definition get_gpt4_prediction :: "raw_prediction \<Rightarrow> forecast option" where
  "get_gpt4_prediction prediction =
     (case validate_and_format_prediction prediction of Inl e \<Rightarrow> None | Inr p \<Rightarrow> Some p)"

definition get_deepseek_prediction :: "raw_prediction \<Rightarrow> forecast option" where
  "get_deepseek_prediction prediction =
     (case validate_and_format_prediction prediction of Inl e \<Rightarrow> None | Inr p \<Rightarrow> Some p)"

text \<open>
  The collection step of \<open>get_comprehensive_prediction\<close>, with both API keys configured: a
  provider that yielded a forecast is appended under its model name.
\<close>

definition collect_predictions :: "raw_prediction \<Rightarrow> raw_prediction \<Rightarrow> (string \<times> forecast) list" where
  "collect_predictions gpt_raw deepseek_raw =
     (case get_gpt4_prediction gpt_raw of None \<Rightarrow> [] | Some p \<Rightarrow> [(''gpt4'', p)]) @
     (case get_deepseek_prediction deepseek_raw of None \<Rightarrow> [] | Some p \<Rightarrow> [(''deepseek'', p)])"

section \<open>Ensemble aggregator (ai\_prediction\_service.py)\<close>

text \<open>\<open>settings.AI_ENSEMBLE_WEIGHTS\<close> of core/config.py.\<close>

definition AI_ENSEMBLE_WEIGHTS :: "(string \<times> real) list" where
  "AI_ENSEMBLE_WEIGHTS = [(''gpt4'', 0.6), (''deepseek'', 0.4)]"

text \<open>The loop of \<open>_calculate_dynamic_weights\<close> over the predictions.\<close>

fun adjust_weights :: "(string \<times> forecast) list \<Rightarrow> (string \<times> real) list \<Rightarrow> (string \<times> real) list" where
  "adjust_weights [] weights = weights"
| "adjust_weights ((model, pred) # rest) weights =
     (let confidence_factor = min (max (confidence pred) 0.5) 1.0
      in adjust_weights rest
           (AList.update model
              ((case map_of weights model of None \<Rightarrow> 0.5 | Some w \<Rightarrow> w) * confidence_factor)
              weights))"

text \<open>
  \<open>_calculate_dynamic_weights\<close>: the normalisation divides every entry of the weight map,
  the models that contributed no forecast included, by the sum of all entries.
\<close>

definition calculate_dynamic_weights ::
  "(string \<times> forecast) list \<Rightarrow> (string \<times> real) list \<Rightarrow> py_error + (string \<times> real) list" where
  "calculate_dynamic_weights predictions base_weights =
     (let weights = adjust_weights predictions base_weights;
          total_weight = sum_list (map snd weights)
      in if weights \<noteq> [] \<and> total_weight = 0 then Inl ZeroDivisionError
         else Inr (map (\<lambda>(k, v). (k, v / total_weight)) weights))"

text \<open>\<open>_calculate_consistency\<close>.\<close>

definition calculate_consistency :: "(string \<times> forecast) list \<Rightarrow> real" where
  "calculate_consistency predictions =
     (if length predictions < 2 then 1.0
      else
        let home_scores = map (\<lambda>p. of_int (home (score_prediction (snd p)))) predictions;
            away_scores = map (\<lambda>p. of_int (away (score_prediction (snd p)))) predictions;
            score_variance = (np_var home_scores + np_var away_scores) / 2;
            unique_outcomes = length (remdups (map (\<lambda>p. predicted_outcome (snd p)) predictions));
            outcome_agreement = 1 / of_nat unique_outcomes;
            consistency = (1 / (1 + score_variance)) * outcome_agreement
        in py_round2 consistency)"

text \<open>
  \<open>_assess_risk\<close>; the result is a member of the string enumeration \<open>RiskLevel\<close>. On an
  empty list \<open>numpy.mean\<close> is NaN and both comparisons with it are false.
\<close>

definition assess_risk :: "(string \<times> forecast) list \<Rightarrow> real \<Rightarrow> string" where
  "assess_risk predictions consistency =
     (if predictions = [] then (if consistency < 0.5 then ''high'' else ''medium'')
      else
        let avg_confidence = np_mean (map (\<lambda>p. confidence (snd p)) predictions)
        in if 0.8 < consistency \<and> 0.75 < avg_confidence then ''low''
           else if consistency < 0.5 \<or> avg_confidence < 0.5 then ''high''
           else ''medium'')"

text \<open>The local variables that the loop of \<open>_weighted_aggregate\<close> updates.\<close>

record aggregate_state =
  combined_scores_home :: real
  combined_scores_away :: real
  combined_confidence :: real
  outcome_mass :: "(string \<times> real) list"
  all_reasoning :: "string list"
  all_factors :: "string list"

text \<open>
  The loop of \<open>_weighted_aggregate\<close>. \<open>weights[model]\<close> and
  \<open>outcome_probabilities[pred["predicted_outcome"]] += weight\<close> raise \<open>KeyError\<close> on a
  missing key.
\<close>

fun aggregate_loop ::
  "(string \<times> forecast) list \<Rightarrow> (string \<times> real) list \<Rightarrow> aggregate_state \<Rightarrow> py_error + aggregate_state" where
  "aggregate_loop [] weights st = Inr st"
| "aggregate_loop ((model, pred) # rest) weights st =
     (case map_of weights model of
        None \<Rightarrow> Inl KeyError
      | Some weight \<Rightarrow>
          (case map_of (outcome_mass st) (predicted_outcome pred) of
             None \<Rightarrow> Inl KeyError
           | Some mass \<Rightarrow>
               aggregate_loop rest weights
                 \<lparr>combined_scores_home =
                    combined_scores_home st + of_int (home (score_prediction pred)) * weight,
                  combined_scores_away =
                    combined_scores_away st + of_int (away (score_prediction pred)) * weight,
                  combined_confidence = combined_confidence st + confidence pred * weight,
                  outcome_mass = AList.update (predicted_outcome pred) (mass + weight) (outcome_mass st),
                  all_reasoning = all_reasoning st @ reasoning pred,
                  all_factors = all_factors st @ key_factors pred\<rparr>))"

definition initial_aggregate_state :: aggregate_state where
  "initial_aggregate_state =
     \<lparr>combined_scores_home = 0, combined_scores_away = 0, combined_confidence = 0,
      outcome_mass = [(''home_win'', 0), (''draw'', 0), (''away_win'', 0)],
      all_reasoning = [], all_factors = []\<rparr>"

text \<open>
  \<open>_weighted_aggregate\<close>. \<open>list(set(xs))\<close> keeps one copy of every element in an order
  Python leaves unspecified; \<open>remdups\<close> stands for it, and nothing below depends on the order.
\<close>

definition weighted_aggregate ::
  "(string \<times> forecast) list \<Rightarrow> (string \<times> real) list \<Rightarrow> py_error + ensemble" where
  "weighted_aggregate predictions weights =
     py_bind (aggregate_loop predictions weights initial_aggregate_state) (\<lambda>st.
     py_bind (py_max_item (outcome_mass st)) (\<lambda>best.
       let model_agreement =
             (length (remdups (map (\<lambda>p. predicted_outcome (snd p)) predictions)) = 1);
           prediction_consistency = calculate_consistency predictions
       in Inr \<lparr>score_prediction =
                 \<lparr>home = py_round (combined_scores_home st), away = py_round (combined_scores_away st)\<rparr>,
               predicted_outcome = fst best,
               confidence = combined_confidence st,
               reasoning = remdups (all_reasoning st),
               key_factors = remdups (all_factors st),
               risk_assessment = assess_risk predictions prediction_consistency,
               model_agreement = model_agreement,
               consistency_score = prediction_consistency,
               outcome_probabilities = outcome_mass st\<rparr>))"

text \<open>
  \<open>_advanced_ensemble\<close>: dynamic weights, then the weighted aggregate. The \<open>uncertainty\<close>
  entry that the source attaches afterwards reads only the forecasts and is left out.
\<close>

definition advanced_ensemble ::
  "(string \<times> real) list \<Rightarrow> (string \<times> forecast) list \<Rightarrow> py_error + ensemble" where
  "advanced_ensemble base_weights predictions =
     py_bind (calculate_dynamic_weights predictions base_weights) (\<lambda>adjusted_weights.
       weighted_aggregate predictions adjusted_weights)"

section \<open>Derived market generator (ai\_prediction\_service.py)\<close>

text \<open>
  The values that occur in the dictionary of derived markets. A market is a \<open>PyDict\<close> in
  the key order of the source's dictionary literal.
\<close>

datatype py_value =
  PyBool bool
| PyInt int
| PyFloat real
| PyStr string
| PyDict "(string \<times> py_value) list"

text \<open>The number held by a value that is used in arithmetic; \<open>TypeError\<close> otherwise.\<close>

fun py_number :: "py_value \<Rightarrow> py_error + real" where
  "py_number (PyInt i) = Inr (of_int i)"
| "py_number (PyFloat x) = Inr x"
| "py_number (PyBool b) = Inr (if b then 1 else 0)"
| "py_number (PyStr s) = Inl TypeError"
| "py_number (PyDict d) = Inl TypeError"

text \<open>
  The match context: a team dictionary read with \<open>get\<close> and defaults, and the keys of
  \<open>match_data\<close> that the generator reads. \<open>None\<close> is an absent key.
\<close>

record team_data =
  rating :: "real option"
  form :: "string option"
  home_advantage :: "real option"

record match_data =
  home_team :: "team_data option"
  away_team :: "team_data option"
  attacking_style :: "string option"
  is_derby :: "bool option"
  match_importance :: "string option"
  attacking_factor :: "real option"

definition form_values :: "char \<Rightarrow> int" where
  "form_values result =
     (if result = CHR ''W'' then 2 else if result = CHR ''D'' then 1
      else if result = CHR ''L'' then 0 else 1)"

definition calculate_form_strength :: "string \<Rightarrow> py_error + real" where
  "calculate_form_strength form_string =
     (if length form_string * 2 = 0 then Inl ZeroDivisionError
      else Inr (of_int (sum_list (map form_values form_string)) / of_nat (length form_string * 2)))"

definition calculate_team_strength :: "team_data \<Rightarrow> py_error + real" where
  "calculate_team_strength td =
     py_bind (calculate_form_strength (case form td of None \<Rightarrow> ''DDDDD'' | Some f \<Rightarrow> f)) (\<lambda>fs.
       Inr ((case rating td of None \<Rightarrow> 75 | Some r \<Rightarrow> r) * 0.4 + fs * 0.3 +
            (case home_advantage td of None \<Rightarrow> 1.1 | Some h \<Rightarrow> h) * 0.3))"

text \<open>
  Modelled from the spec: \<open>_calculate_team_attacking_strength\<close> is called by
  \<open>_predict_detailed_corners\<close> and defined nowhere in the repository. The spec gives the
  attacking strength as team rating times 0.4 plus form strength times 0.3 plus home-advantage
  factor times 0.3, which is the formula of \<open>_calculate_team_strength\<close>. The generator below
  takes the helper as a parameter; this definition is the instance used on concrete inputs.
\<close>

definition calculate_team_attacking_strength :: "team_data \<Rightarrow> py_error + real" where
  "calculate_team_attacking_strength td = calculate_team_strength td"

definition predict_corners :: "match_data \<Rightarrow> int" where
  "predict_corners md =
     (let base_corners = (10::real);
          style_factor =
            (case attacking_style md of
               None \<Rightarrow> 1.0
             | Some s \<Rightarrow> if s = ''wing_play'' then 1.0 * 1.2
                         else if s = ''central'' then 1.0 * 0.9 else 1.0)
      in py_round (base_corners * style_factor))"

definition predict_cards :: "match_data \<Rightarrow> int" where
  "predict_cards md =
     (let base_cards = (4::real);
          f1 = (if is_derby md = Some True then 1.0 * 1.3 else 1.0);
          intensity_factor = (if match_importance md = Some ''high'' then f1 * 1.2 else f1)
      in py_round (base_cards * intensity_factor))"

definition predict_detailed_corners ::
  "(team_data \<Rightarrow> py_error + real) \<Rightarrow> match_data \<Rightarrow> py_error + py_value" where
  "predict_detailed_corners attacking_strength md =
     (let base_corners = predict_corners md
      in py_bind (case home_team md of None \<Rightarrow> Inl KeyError | Some t \<Rightarrow> attacking_strength t) (\<lambda>hs.
         py_bind (case away_team md of None \<Rightarrow> Inl KeyError | Some t \<Rightarrow> attacking_strength t) (\<lambda>as.
           if hs + as = 0 then Inl ZeroDivisionError
           else Inr (PyDict
             [(''total'', PyInt base_corners),
              (''home_team'', PyInt (py_round (of_int base_corners * (hs / (hs + as))))),
              (''away_team'', PyInt (py_round (of_int base_corners * (as / (hs + as))))),
              (''over_8_5'', PyBool (8.5 < (of_int base_corners :: real))),
              (''over_10_5'', PyBool (10.5 < (of_int base_corners :: real))),
              (''first_half'', PyInt (py_round (of_int base_corners * 0.45))),
              (''second_half'', PyInt (py_round (of_int base_corners * 0.55))),
              (''confidence'', PyFloat 0.75)]))))"

definition predict_detailed_cards :: "match_data \<Rightarrow> py_value" where
  "predict_detailed_cards md =
     (let base_cards = predict_cards md;
          derby_factor = (if is_derby md = Some True then 1.3 else (1.0::real));
          importance_factor = (if match_importance md = Some ''high'' then 1.2 else (1.0::real))
      in PyDict
           [(''total'', PyInt base_cards),
            (''yellow_cards'', PyInt (py_round (of_int base_cards * 0.85))),
            (''red_cards'',
               PyInt (if 1.4 < derby_factor * importance_factor
                      then py_round (of_int base_cards * 0.15) else 0)),
            (''first_yellow_before'', PyStr (if 1 < derby_factor then ''30'' else ''45'')),
            (''home_team'', PyInt (py_round (of_int base_cards * 0.5))),
            (''away_team'', PyInt (py_round (of_int base_cards * 0.5))),
            (''confidence'', PyFloat 0.7)])"

definition predict_possession :: "match_data \<Rightarrow> py_error + py_value" where
  "predict_possession md =
     py_bind (case home_team md of None \<Rightarrow> Inl KeyError | Some t \<Rightarrow> calculate_team_strength t)
       (\<lambda>home_strength.
     py_bind (case away_team md of None \<Rightarrow> Inl KeyError | Some t \<Rightarrow> calculate_team_strength t)
       (\<lambda>away_strength.
       let total_strength = home_strength + away_strength
       in if total_strength = 0 then Inl ZeroDivisionError
          else
            let home_possession = py_round ((home_strength / total_strength) * 100)
            in Inr (PyDict
                 [(''home_team'', PyInt home_possession),
                  (''away_team'', PyInt (100 - home_possession)),
                  (''dominant_team'',
                     PyStr (if 55 < home_possession then ''home''
                            else if home_possession < 45 then ''away'' else ''balanced'')),
                  (''confidence'', PyFloat 0.65)])))"

definition predict_shots :: "match_data \<Rightarrow> py_value" where
  "predict_shots md =
     (let total_shots = py_round (12 + (case attacking_factor md of None \<Rightarrow> 0 | Some a \<Rightarrow> a) * 2)
      in PyDict
           [(''total_shots'', PyInt total_shots),
            (''on_target'', PyInt (py_round (of_int total_shots * 0.4))),
            (''home_team'', PyInt (py_round (of_int total_shots * 0.55))),
            (''away_team'', PyInt (py_round (of_int total_shots * 0.45))),
            (''confidence'', PyFloat 0.6)])"

section \<open>Diagnostics (ai\_prediction\_service.py)\<close>

text \<open>
  The upper 2.5 percent point of the standard normal distribution as the float that
  \<open>scipy.stats.norm.ppf(0.975)\<close> returns; \<open>norm.interval(0.95, loc, scale)\<close> is
  \<open>loc\<close> minus and plus \<open>scale\<close> times this number, and NaN on both sides for a
  scale that is not positive, on which \<open>round\<close> raises \<open>ValueError\<close>.
\<close>

definition norm_ppf_975 :: real where
  "norm_ppf_975 = 1.959963984540054"

fun calculate_confidence_intervals :: "(string \<times> py_value) list \<Rightarrow> py_error + (string \<times> py_value) list" where
  "calculate_confidence_intervals [] = Inr []"
| "calculate_confidence_intervals ((pred_type, PyDict d) # rest) =
     (case map_of d ''total'' of
        None \<Rightarrow> calculate_confidence_intervals rest
      | Some total_value \<Rightarrow>
          py_bind (py_number total_value) (\<lambda>mean.
          py_bind (case map_of d ''confidence'' of None \<Rightarrow> Inr 0.7 | Some c \<Rightarrow> py_number c) (\<lambda>conf.
            let std_dev = (1 - conf) * mean * 0.5
            in if std_dev \<le> 0 then Inl ValueError
               else
                 py_bind (calculate_confidence_intervals rest) (\<lambda>intervals.
                   Inr ((pred_type,
                         PyDict
                           [(''lower_bound'', PyInt (max 0 (py_round (mean - std_dev * norm_ppf_975)))),
                            (''upper_bound'', PyInt (py_round (mean + std_dev * norm_ppf_975))),
                            (''confidence_level'', PyFloat 0.95)]) # intervals)))))"
| "calculate_confidence_intervals ((pred_type, v) # rest) = calculate_confidence_intervals rest"

text \<open>
  \<open>_calculate_prediction_correlation\<close>: both quotients divide by \<open>val1 + val2\<close>, which raises
  \<open>ZeroDivisionError\<close> when the sum is zero.
\<close>

definition calculate_prediction_correlation :: "real \<Rightarrow> real \<Rightarrow> py_error + real" where
  "calculate_prediction_correlation val1 val2 =
     (if val1 + val2 = 0 then Inl ZeroDivisionError
      else Inr (0.5 * (val1 / (val1 + val2)) + 0.5 * (val2 / (val1 + val2))))"

text \<open>
  The first loop of \<open>_analyze_prediction_correlations\<close>: the markets that are dictionaries
  with a \<open>total\<close>, with that total.
\<close>

fun numerical_predictions :: "(string \<times> py_value) list \<Rightarrow> (string \<times> py_value) list" where
  "numerical_predictions [] = []"
| "numerical_predictions ((pred_type, PyDict d) # rest) =
     (case map_of d ''total'' of
        None \<Rightarrow> numerical_predictions rest
      | Some total_value \<Rightarrow> (pred_type, total_value) # numerical_predictions rest)"
| "numerical_predictions ((pred_type, v) # rest) = numerical_predictions rest"

text \<open>
  The inner loop for one \<open>pred1\<close>: every other numerical prediction gets the correlation,
  rounded to two decimals.
\<close>

fun correlation_row :: "string \<Rightarrow> py_value \<Rightarrow> (string \<times> py_value) list \<Rightarrow> py_error + (string \<times> real) list" where
  "correlation_row pred1 v1 [] = Inr []"
| "correlation_row pred1 v1 ((pred2, v2) # rest) =
     (if pred1 \<noteq> pred2 then
        py_bind (py_number v1) (\<lambda>val1.
        py_bind (py_number v2) (\<lambda>val2.
        py_bind (calculate_prediction_correlation val1 val2) (\<lambda>correlation.
        py_bind (correlation_row pred1 v1 rest) (\<lambda>row.
          Inr ((pred2, py_round2 correlation) # row)))))
      else correlation_row pred1 v1 rest)"

text \<open>The outer loop, over the numerical predictions still to visit.\<close>

fun correlation_rows ::
  "(string \<times> py_value) list \<Rightarrow> (string \<times> py_value) list \<Rightarrow> py_error + (string \<times> (string \<times> real) list) list" where
  "correlation_rows numerical [] = Inr []"
| "correlation_rows numerical ((pred1, v1) # rest) =
     py_bind (correlation_row pred1 v1 numerical) (\<lambda>row.
     py_bind (correlation_rows numerical rest) (\<lambda>rows.
       Inr ((pred1, row) # rows)))"

definition analyze_prediction_correlations ::
  "(string \<times> py_value) list \<Rightarrow> py_error + (string \<times> (string \<times> real) list) list" where
  "analyze_prediction_correlations predictions =
     correlation_rows (numerical_predictions predictions) (numerical_predictions predictions)"

text \<open>The correlation table as a dictionary of dictionaries.\<close>

definition correlations_value :: "(string \<times> (string \<times> real) list) list \<Rightarrow> py_value" where
  "correlations_value rows = PyDict (map (\<lambda>(k, row). (k, PyDict (map (\<lambda>(j, c). (j, PyFloat c)) row))) rows)"

text \<open>
  \<open>_get_additional_predictions\<close>. The dictionary literal is evaluated in key order, so the
  first helper that raises decides the exception; the two diagnostics entries are added last.
\<close>

definition get_additional_predictions ::
  "(team_data \<Rightarrow> py_error + real) \<Rightarrow> match_data \<Rightarrow> ('a forecast_scheme) \<Rightarrow> py_error + (string \<times> py_value) list" where
  "get_additional_predictions attacking_strength md base_prediction =
     (let total_goals = home (score_prediction base_prediction) + away (score_prediction base_prediction);
          btts = (0 < home (score_prediction base_prediction) \<and> 0 < away (score_prediction base_prediction))
      in py_bind (predict_detailed_corners attacking_strength md) (\<lambda>corners.
         py_bind (predict_possession md) (\<lambda>possession.
           let predictions =
             [(''over_under'', PyDict
                 [(''total_goals'', PyInt total_goals),
                  (''over_2_5'', PyBool (2.5 < (of_int total_goals :: real))),
                  (''over_3_5'', PyBool (3.5 < (of_int total_goals :: real))),
                  (''over_1_5'', PyBool (1.5 < (of_int total_goals :: real))),
                  (''under_1_5'', PyBool ((of_int total_goals :: real) < 1.5)),
                  (''under_2_5'', PyBool ((of_int total_goals :: real) < 2.5)),
                  (''confidence'', PyFloat (confidence base_prediction * 0.9))]),
              (''btts'', PyDict
                 [(''prediction'', PyBool btts),
                  (''confidence'', PyFloat (confidence base_prediction * 0.85)),
                  (''both_score_ht'', PyBool False),
                  (''both_score_either_half'', PyBool False)]),
              (''first_half'', PyDict
                 [(''home_score'', PyInt (py_round (of_int (home (score_prediction base_prediction)) * 0.4))),
                  (''away_score'', PyInt (py_round (of_int (away (score_prediction base_prediction)) * 0.4))),
                  (''confidence'', PyFloat (confidence base_prediction * 0.7)),
                  (''most_goals'', PyStr ''first_half'')]),
              (''corners'', corners),
              (''cards'', predict_detailed_cards md),
              (''possession'', possession),
              (''shots'', predict_shots md),
              (''clean_sheet'', PyBool False),
              (''win_to_nil'', PyBool False),
              (''goal_timing'', PyStr ''early''),
              (''player_goals'', PyDict [])]
           in py_bind (calculate_confidence_intervals predictions) (\<lambda>intervals.
              let predictions2 = predictions @ [(''confidence_intervals'', PyDict intervals)]
              in py_bind (analyze_prediction_correlations predictions2) (\<lambda>rows.
                   Inr (predictions2 @ [(''correlation_analysis'', correlations_value rows)]))))))"

text \<open>The \<open>confidence\<close> entry of the market stored under a name, if there is one.\<close>

definition market_confidence :: "(string \<times> py_value) list \<Rightarrow> string \<Rightarrow> real option" where
  "market_confidence predictions name =
     (case map_of predictions name of
        Some (PyDict d) \<Rightarrow> (case map_of d ''confidence'' of Some (PyFloat c) \<Rightarrow> Some c | _ \<Rightarrow> None)
      | _ \<Rightarrow> None)"

section \<open>Value and edge analyzer (ml/model.py)\<close>

text \<open>
  Both arguments of \<open>evaluate_prediction_quality\<close> are dictionaries from strings to floats.
  \<open>sum(1/odd for odd in odds.values())\<close> raises \<open>ZeroDivisionError\<close> at a zero odd.
\<close>

fun total_implied_prob :: "(string \<times> real) list \<Rightarrow> py_error + real" where
  "total_implied_prob [] = Inr 0"
| "total_implied_prob ((k, odd_value) # rest) =
     (if odd_value = 0 then Inl ZeroDivisionError
      else py_bind (total_implied_prob rest) (\<lambda>s. Inr (1 / odd_value + s)))"

text \<open>The dictionary comprehension \<open>{k: (1/v)/total_implied_prob for k, v in odds.items()}\<close>.\<close>

definition market_probabilities :: "(string \<times> real) list \<Rightarrow> real \<Rightarrow> py_error + (string \<times> real) list" where
  "market_probabilities odds total_implied =
     (if odds \<noteq> [] \<and> total_implied = 0 then Inl ZeroDivisionError
      else Inr (map (\<lambda>(k, v). (k, (1 / v) / total_implied)) odds))"

text \<open>The key \<open>f"{k.lower()}_probability"\<close> for the three outcome labels the function iterates over.\<close>

definition probability_key :: "string \<Rightarrow> string" where
  "probability_key k =
     (if k = ''HOME_WIN'' then ''home_win_probability''
      else if k = ''DRAW'' then ''draw_probability''
      else ''away_win_probability'')"

text \<open>The dictionary comprehension of the edges, over the three labels in order.\<close>

fun edges :: "string list \<Rightarrow> (string \<times> real) list \<Rightarrow> (string \<times> real) list \<Rightarrow> py_error + (string \<times> real) list" where
  "edges [] prediction market = Inr []"
| "edges (k # ks) prediction market =
     py_bind (py_getitem prediction (probability_key k)) (\<lambda>p.
     py_bind (py_getitem market k) (\<lambda>m.
     py_bind (edges ks prediction market) (\<lambda>rest.
       Inr ((k, p - m) # rest))))"

record quality =
  best_bet :: string
  edge :: real
  kelly_fraction :: real
  value_rating :: real
  market_efficiency :: real

text \<open>
  \<open>evaluate_prediction_quality\<close>. The handler around the body logs the exception and raises
  it again, so every exception of the body reaches the caller.
\<close>

definition evaluate_prediction_quality ::
  "(string \<times> real) list \<Rightarrow> (string \<times> real) list \<Rightarrow> py_error + quality" where
  "evaluate_prediction_quality prediction odds =
     py_bind (total_implied_prob odds) (\<lambda>total_implied.
     py_bind (market_probabilities odds total_implied) (\<lambda>market.
     py_bind (edges [''HOME_WIN'', ''DRAW'', ''AWAY_WIN''] prediction market) (\<lambda>es.
     py_bind (py_max_item es) (\<lambda>max_edge_outcome.
     py_bind
       (if 0 < snd max_edge_outcome then
          py_bind (py_getitem odds (fst max_edge_outcome)) (\<lambda>odd_value.
          py_bind (py_getitem prediction (probability_key (fst max_edge_outcome))) (\<lambda>p.
            if odd_value - 1 = 0 then Inl ZeroDivisionError else Inr ((odd_value * p - 1) / (odd_value - 1))))
        else Inr 0) (\<lambda>kelly.
     py_bind (py_getitem prediction ''confidence'') (\<lambda>conf.
       Inr \<lparr>best_bet = fst max_edge_outcome,
            edge = snd max_edge_outcome,
            kelly_fraction = max 0 (min kelly 0.1),
            value_rating = snd max_edge_outcome * conf,
            market_efficiency = 1 - \<bar>1 - total_implied\<bar>\<rparr>))))))"

section \<open>Settlement evaluator (soccer\_service.py, models)\<close>

datatype PredictionStatus = PENDING | CORRECT | INCORRECT | VOID | PARTIALLY_CORRECT

datatype MatchStatus = SCHEDULED | IN_PROGRESS | COMPLETED | CANCELLED | POSTPONED | SUSPENDED

record match =
  match_status :: MatchStatus
  score_data :: score

definition is_finished :: "match \<Rightarrow> bool" where
  "is_finished m = (match_status m = COMPLETED)"

text \<open>
  The stored prediction data (the keys \<open>validate_prediction\<close> requires), the dictionary a
  settlement returns, and the \<open>Prediction\<close> row, which has a column for each key of a
  settlement.
\<close>

record prediction_data = scored +
  outcome :: string

record settlement =
  status :: PredictionStatus
  profit_loss :: real
  points_earned :: int
  performance_metrics :: "(string \<times> real) list"

record prediction = settlement +
  prediction_data :: prediction_data
  stake_amount :: real
  potential_return :: real

definition get_match_outcome :: "score \<Rightarrow> string" where
  "get_match_outcome sd =
     (if away sd < home sd then ''home_win''
      else if home sd < away sd then ''away_win''
      else ''draw'')"

definition calculate_score_accuracy :: "score \<Rightarrow> score \<Rightarrow> real" where
  "calculate_score_accuracy predicted_score actual_score =
     (let max_diff = (5::int);
          home_diff = \<bar>home predicted_score - home actual_score\<bar>;
          away_diff = \<bar>away predicted_score - away actual_score\<bar>
      in 1 - (of_int (home_diff + away_diff) / of_int (2 * max_diff)))"

definition calculate_goal_difference_accuracy :: "score \<Rightarrow> score \<Rightarrow> real" where
  "calculate_goal_difference_accuracy predicted_score actual_score =
     (let predicted_diff = home predicted_score - away predicted_score;
          actual_diff = home actual_score - away actual_score;
          max_diff = (5::int)
      in 1 - (of_int \<bar>predicted_diff - actual_diff\<bar> / of_int (2 * max_diff)))"

text \<open>
  \<open>SoccerService.settle_prediction\<close>: it reads the prediction data, the stake and the
  potential return of the row and writes nothing.
\<close>

definition settle_prediction :: "prediction \<Rightarrow> match \<Rightarrow> settlement" where
  "settle_prediction p m =
     (if \<not> is_finished m then
        \<lparr>status = PENDING, profit_loss = 0, points_earned = 0, performance_metrics = []\<rparr>
      else
        let actual_score = score_data m;
            predicted_outcome = outcome (prediction_data p);
            actual_outcome = get_match_outcome actual_score;
            performance =
              [(''score_accuracy'',
                  calculate_score_accuracy (score_prediction (prediction_data p)) actual_score),
               (''goal_difference_accuracy'',
                  calculate_goal_difference_accuracy (score_prediction (prediction_data p)) actual_score)]
        in if predicted_outcome = actual_outcome then
             \<lparr>status = CORRECT, profit_loss = potential_return p - stake_amount p,
              points_earned = 10, performance_metrics = performance\<rparr>
           else
             \<lparr>status = INCORRECT, profit_loss = - stake_amount p,
              points_earned = 0, performance_metrics = performance\<rparr>)"

text \<open>
  The assignments by which \<open>Prediction.settle_prediction\<close> (models/prediction.py) stores a
  settlement in the row; the settlement time is a wall-clock value and is left out.
\<close>

definition store_settlement :: "prediction \<Rightarrow> settlement \<Rightarrow> prediction" where
  "store_settlement p s =
     p\<lparr>status := status s, profit_loss := profit_loss s, points_earned := points_earned s,
       performance_metrics := performance_metrics s\<rparr>"

section \<open>Notions used in the statements\<close>

text \<open>A total that is a positive number.\<close>

definition positive_total :: "py_value \<Rightarrow> bool" where
  "positive_total v = (case py_number v of Inl e \<Rightarrow> False | Inr x \<Rightarrow> 0 < x)"

text \<open>
  Odds that quote each of the three outcomes, every quote above 1, and a prediction with the
  three probabilities and the confidence.
\<close>

definition quotable_odds :: "(string \<times> real) list \<Rightarrow> bool" where
  "quotable_odds odds =
     (list_all (\<lambda>k. k \<in> set (map fst odds)) [''HOME_WIN'', ''DRAW'', ''AWAY_WIN''] \<and>
      list_all (\<lambda>kv. 1 < snd kv) odds)"

definition complete_prediction :: "(string \<times> real) list \<Rightarrow> bool" where
  "complete_prediction prediction =
     list_all (\<lambda>k. k \<in> set (map fst prediction))
       [''home_win_probability'', ''draw_probability'', ''away_win_probability'', ''confidence'']"

text \<open>
  The best bet and its edge as \<open>evaluate_prediction_quality\<close> has them before the Kelly step.
\<close>

definition max_edge_outcome ::
  "(string \<times> real) list \<Rightarrow> (string \<times> real) list \<Rightarrow> py_error + (string \<times> real)" where
  "max_edge_outcome prediction odds =
     py_bind (total_implied_prob odds) (\<lambda>total_implied.
     py_bind (market_probabilities odds total_implied) (\<lambda>market.
     py_bind (edges [''HOME_WIN'', ''DRAW'', ''AWAY_WIN''] prediction market) py_max_item))"

text \<open>
  The consistency score in the words of the specification: the population variance of a list
  of scores is the mean squared deviation from their mean, the average score variance is the
  mean of the two per-side variances, and the distinct outcome count is the number of different
  predicted outcomes.
\<close>

definition population_variance :: "real list \<Rightarrow> real" where
  "population_variance xs =
     (\<Sum>i<length xs. (xs ! i - (\<Sum>j<length xs. xs ! j) / of_nat (length xs))\<^sup>2) / of_nat (length xs)"

definition average_score_variance :: "(string \<times> forecast) list \<Rightarrow> real" where
  "average_score_variance ps =
     (population_variance (map (\<lambda>p. of_int (home (score_prediction (snd p)))) ps) +
      population_variance (map (\<lambda>p. of_int (away (score_prediction (snd p)))) ps)) / 2"

definition distinct_outcome_count :: "(string \<times> forecast) list \<Rightarrow> nat" where
  "distinct_outcome_count ps = card ((\<lambda>p. predicted_outcome (snd p)) ` set ps)"

definition spec_consistency :: "(string \<times> forecast) list \<Rightarrow> real" where
  "spec_consistency ps =
     py_round2 ((1 / (1 + average_score_variance ps)) * (1 / of_nat (distinct_outcome_count ps)))"

text \<open>
  The outcome vote in the words of the specification: the winner has maximal weight mass;
  among outcomes that tie on mass the one predicted by most providers wins; a remaining tie
  goes to the outcome of the provider that comes first in the input. The result is \<open>None\<close>
  when no provider predicted a remaining candidate.
\<close>

definition outcome_weight_mass :: "(string \<times> forecast) list \<Rightarrow> (string \<times> real) list \<Rightarrow> string \<Rightarrow> real" where
  "outcome_weight_mass ps weights out =
     sum_list (map (\<lambda>(model, pred).
        if predicted_outcome pred = out
        then (case map_of weights model of None \<Rightarrow> 0 | Some w \<Rightarrow> w) else 0) ps)"

definition outcome_votes :: "(string \<times> forecast) list \<Rightarrow> string \<Rightarrow> nat" where
  "outcome_votes ps out = length (filter (\<lambda>(model, pred). predicted_outcome pred = out) ps)"

definition spec_winning_outcome :: "(string \<times> forecast) list \<Rightarrow> (string \<times> real) list \<Rightarrow> string option" where
  "spec_winning_outcome ps weights =
     (let outs = [''home_win'', ''draw'', ''away_win''];
          top_mass = max (outcome_weight_mass ps weights ''home_win'')
                       (max (outcome_weight_mass ps weights ''draw'')
                            (outcome_weight_mass ps weights ''away_win''));
          by_mass = filter (\<lambda>out. outcome_weight_mass ps weights out = top_mass) outs;
          top_votes = foldr max (map (outcome_votes ps) by_mass) 0;
          by_votes = filter (\<lambda>out. outcome_votes ps out = top_votes) by_mass
      in (case filter (\<lambda>(model, pred). predicted_outcome pred \<in> set by_votes) ps of
            [] \<Rightarrow> None
          | (model, pred) # rest \<Rightarrow> Some (predicted_outcome pred)))"

text \<open>The weight a model has in a weight map, zero for a model the map does not name.\<close>

definition weight_of :: "(string \<times> real) list \<Rightarrow> string \<Rightarrow> real" where
  "weight_of weights model = (case map_of weights model of None \<Rightarrow> 0 | Some w \<Rightarrow> w)"

section \<open>Basic facts\<close>

lemma py_bind_Inl [simp]: "py_bind (Inl e) f = Inl e"
  by (simp add: py_bind_def)

lemma py_bind_Inr [simp]: "py_bind (Inr v) f = f v"
  by (simp add: py_bind_def)

lemma py_bind_eq_Inr: "py_bind m f = Inr r \<longleftrightarrow> (\<exists>v. m = Inr v \<and> f v = Inr r)"
  by (cases m) simp_all

lemma py_round_of_int [simp]: "py_round (of_int n) = n"
  by (simp add: py_round_def)

lemma py_round2_half: "py_round2 (1 / 2) = 1 / 2"
  by (simp add: py_round2_def py_round_def)

section \<open>Diagnostics: the correlation table\<close>

lemma calculate_prediction_correlation_half:
  assumes nz: "v1 + v2 \<noteq> 0"
  shows "calculate_prediction_correlation v1 v2 = Inr (1 / 2)"
proof -
  have q: "v1 / (v1 + v2) + v2 / (v1 + v2) = 1"
    using nz by (simp add: add_divide_distrib [symmetric])
  have "0.5 * (v1 / (v1 + v2)) + 0.5 * (v2 / (v1 + v2)) = 0.5 * (v1 / (v1 + v2) + v2 / (v1 + v2))"
    by (simp only: distrib_left)
  also have "\<dots> = 1 / 2" by (simp add: q)
  finally show ?thesis using nz by (simp add: calculate_prediction_correlation_def)
qed

lemma calculate_prediction_correlation_Inr:
  "calculate_prediction_correlation v1 v2 = Inr c \<Longrightarrow> c = 1 / 2"
  by (cases "v1 + v2 = 0")
     (simp_all add: calculate_prediction_correlation_half, simp add: calculate_prediction_correlation_def)

lemma correlation_row_half:
  "correlation_row p1 v1 nums = Inr row \<Longrightarrow> (p2, c) \<in> set row \<Longrightarrow> c = 1 / 2"
proof (induction nums arbitrary: row)
  case Nil
  then show ?case by simp
next
  case (Cons a nums)
  obtain q v2 where a: "a = (q, v2)" by (cases a)
  show ?case
  proof (cases "p1 = q")
    case True
    with Cons a show ?thesis by simp
  next
    case False
    from Cons.prems(1) a False obtain x1 x2 corr row' where
      c: "calculate_prediction_correlation x1 x2 = Inr corr" and
      r: "correlation_row p1 v1 nums = Inr row'" and
      row: "row = (q, py_round2 corr) # row'"
      by (auto simp: py_bind_eq_Inr)
    from c have corr: "corr = 1 / 2" by (rule calculate_prediction_correlation_Inr)
    from Cons.prems(2) row have "(p2, c) = (q, py_round2 corr) \<or> (p2, c) \<in> set row'"
      by simp
    then show ?thesis
    proof
      assume "(p2, c) = (q, py_round2 corr)"
      then show ?thesis by (simp add: corr py_round2_half)
    next
      assume "(p2, c) \<in> set row'"
      with Cons.IH r show ?thesis by blast
    qed
  qed
qed

lemma correlation_rows_half:
  "correlation_rows numerical todo = Inr rows \<Longrightarrow> (p1, row) \<in> set rows \<Longrightarrow>
   (p2, c) \<in> set row \<Longrightarrow> c = 1 / 2"
proof (induction todo arbitrary: rows)
  case Nil
  then show ?case by simp
next
  case (Cons a todo)
  obtain q v where a: "a = (q, v)" by (cases a)
  from Cons.prems(1) a obtain r rs where
    r: "correlation_row q v numerical = Inr r" and
    rs: "correlation_rows numerical todo = Inr rs" and
    rows: "rows = (q, r) # rs"
    by (auto simp: py_bind_eq_Inr)
  from Cons.prems(2) rows have "(p1, row) = (q, r) \<or> (p1, row) \<in> set rs" by simp
  then show ?case
  proof
    assume "(p1, row) = (q, r)"
    with r Cons.prems(3) show ?thesis by (auto dest: correlation_row_half)
  next
    assume "(p1, row) \<in> set rs"
    with Cons.IH rs Cons.prems(3) show ?thesis by blast
  qed
qed

lemma correlation_row_returns:
  "list_all (\<lambda>kv. positive_total (snd kv)) nums \<Longrightarrow> positive_total v1 \<Longrightarrow>
   \<exists>row. correlation_row p1 v1 nums = Inr row"
proof (induction nums)
  case Nil
  then show ?case by simp
next
  case (Cons a nums)
  obtain q v2 where a: "a = (q, v2)" by (cases a)
  from Cons.prems(2) obtain x1 where x1: "py_number v1 = Inr x1" "0 < x1"
    by (auto simp: positive_total_def split: sum.splits)
  from Cons.prems(1) a obtain x2 where x2: "py_number v2 = Inr x2" "0 < x2"
    by (auto simp: positive_total_def split: sum.splits)
  from Cons obtain row where row: "correlation_row p1 v1 nums = Inr row" by auto
  from x1 x2 have "x1 + x2 \<noteq> 0" by simp
  then have "calculate_prediction_correlation x1 x2 = Inr (1 / 2)"
    by (rule calculate_prediction_correlation_half)
  with a row x1 x2 show ?case by auto
qed

lemma correlation_rows_returns:
  "list_all (\<lambda>kv. positive_total (snd kv)) numerical \<Longrightarrow>
   list_all (\<lambda>kv. positive_total (snd kv)) todo \<Longrightarrow>
   \<exists>rows. correlation_rows numerical todo = Inr rows"
proof (induction todo)
  case Nil
  then show ?case by simp
next
  case (Cons a todo)
  obtain q v where a: "a = (q, v)" by (cases a)
  from Cons.prems a have pos: "positive_total v" by simp
  from correlation_row_returns[OF Cons.prems(1) pos] obtain r where
    r: "correlation_row q v numerical = Inr r" by blast
  from Cons obtain rs where rs: "correlation_rows numerical todo = Inr rs" by auto
  from a r rs show ?case by simp
qed

text \<open>
  C10. Whenever \<open>v1 + v2 \<noteq> 0\<close>, \<open>_calculate_prediction_correlation(v1, v2)\<close> is exactly 0.5;
  hence every pairwise entry that \<open>_analyze_prediction_correlations\<close> reports is 0.5, whatever
  the predictions are, and the analysis does return a table when every total is a positive
  number.
\<close>

theorem correlation_is_constant_half:
  "(v1 + v2 \<noteq> 0 \<longrightarrow> calculate_prediction_correlation v1 v2 = Inr (1 / 2)) \<and>
   (\<forall>rows p1 row p2 c. analyze_prediction_correlations predictions = Inr rows \<longrightarrow>
       (p1, row) \<in> set rows \<longrightarrow> (p2, c) \<in> set row \<longrightarrow> c = 1 / 2) \<and>
   (list_all (\<lambda>kv. positive_total (snd kv)) (numerical_predictions predictions) \<longrightarrow>
       (\<exists>rows. analyze_prediction_correlations predictions = Inr rows))"
proof (intro conjI allI impI)
  assume "v1 + v2 \<noteq> 0"
  then show "calculate_prediction_correlation v1 v2 = Inr (1 / 2)"
    by (rule calculate_prediction_correlation_half)
next
  fix rows p1 row p2 c
  assume "analyze_prediction_correlations predictions = Inr rows"
    "(p1, row) \<in> set rows" "(p2, c) \<in> set row"
  then show "c = 1 / 2"
    unfolding analyze_prediction_correlations_def by (rule correlation_rows_half)
next
  assume "list_all (\<lambda>kv. positive_total (snd kv)) (numerical_predictions predictions)"
  then show "\<exists>rows. analyze_prediction_correlations predictions = Inr rows"
    unfolding analyze_prediction_correlations_def by (simp add: correlation_rows_returns)
qed

theorem correlation_is_constant_half_witness:
  "calculate_prediction_correlation 12 6 = Inr (1 / 2) \<and>
   list_all (\<lambda>kv. positive_total (snd kv))
     (numerical_predictions
        [(''corners'', PyDict [(''total'', PyInt 12), (''confidence'', PyFloat 0.75)]),
         (''clean_sheet'', PyBool False),
         (''cards'', PyDict [(''total'', PyInt 6), (''confidence'', PyFloat 0.7)])]) \<and>
   (\<exists>rows.
      analyze_prediction_correlations
        [(''corners'', PyDict [(''total'', PyInt 12), (''confidence'', PyFloat 0.75)]),
         (''clean_sheet'', PyBool False),
         (''cards'', PyDict [(''total'', PyInt 6), (''confidence'', PyFloat 0.7)])] = Inr rows \<and>
      rows = [(''corners'', [(''cards'', 1 / 2)]), (''cards'', [(''corners'', 1 / 2)])] \<and>
      (\<forall>p1 row p2 c. (p1, row) \<in> set rows \<longrightarrow> (p2, c) \<in> set row \<longrightarrow> c = 1 / 2))"
proof -
  let ?P = "[(''corners'', PyDict [(''total'', PyInt 12), (''confidence'', PyFloat 0.75)]),
         (''clean_sheet'', PyBool False),
         (''cards'', PyDict [(''total'', PyInt 6), (''confidence'', PyFloat 0.7)])]"
  have a: "calculate_prediction_correlation 12 6 = Inr (1 / 2)"
    using correlation_is_constant_half [of 12 6 "[]"] by simp
  have b: "calculate_prediction_correlation 6 12 = Inr (1 / 2)"
    using correlation_is_constant_half [of 6 12 "[]"] by simp
  have pos: "list_all (\<lambda>kv. positive_total (snd kv)) (numerical_predictions ?P)"
    by (simp add: positive_total_def)
  with correlation_is_constant_half [of 12 6 ?P] obtain rows where
    rows: "analyze_prediction_correlations ?P = Inr rows" by blast
  with correlation_is_constant_half [of 12 6 ?P] have
    half: "\<forall>p1 row p2 c. (p1, row) \<in> set rows \<longrightarrow> (p2, c) \<in> set row \<longrightarrow> c = 1 / 2"
    by blast
  have "analyze_prediction_correlations ?P =
      Inr [(''corners'', [(''cards'', 1 / 2)]), (''cards'', [(''corners'', 1 / 2)])]"
    using a b by (simp add: analyze_prediction_correlations_def py_round2_half)
  with rows have "rows = [(''corners'', [(''cards'', 1 / 2)]), (''cards'', [(''corners'', 1 / 2)])]"
    by simp
  with a pos rows half show ?thesis by blast
qed

section \<open>Settlement\<close>

text \<open>
  C8 (amended). The score accuracy and the goal-difference accuracy equal
  \<open>1 - |\<Delta>| / (2 * 5)\<close> and never exceed 1; they are not clamped, and are non-negative exactly
  when the discrepancy is at most 10.
\<close>

theorem accuracy_formula_unclamped:
  "calculate_score_accuracy p a =
     1 - of_int (\<bar>home p - home a\<bar> + \<bar>away p - away a\<bar>) / (2 * 5) \<and>
   calculate_goal_difference_accuracy p a =
     1 - of_int \<bar>(home p - away p) - (home a - away a)\<bar> / (2 * 5) \<and>
   calculate_score_accuracy p a \<le> 1 \<and>
   calculate_goal_difference_accuracy p a \<le> 1 \<and>
   (0 \<le> calculate_score_accuracy p a \<longleftrightarrow> \<bar>home p - home a\<bar> + \<bar>away p - away a\<bar> \<le> 10) \<and>
   (0 \<le> calculate_goal_difference_accuracy p a \<longleftrightarrow>
      \<bar>(home p - away p) - (home a - away a)\<bar> \<le> 10)"
proof -
  define n1 where "n1 = \<bar>home p - home a\<bar> + \<bar>away p - away a\<bar>"
  define n2 where "n2 = \<bar>(home p - away p) - (home a - away a)\<bar>"
  have n1: "0 \<le> n1" and n2: "0 \<le> n2" by (simp_all add: n1_def n2_def)
  have s: "calculate_score_accuracy p a = 1 - of_int n1 / (2 * 5)"
    by (simp add: calculate_score_accuracy_def n1_def)
  have g: "calculate_goal_difference_accuracy p a = 1 - of_int n2 / (2 * 5)"
    by (simp add: calculate_goal_difference_accuracy_def n2_def)
  have le: "(1 - of_int n / (2 * 5) :: real) \<le> 1" if "0 \<le> n" for n :: int
    using that by simp
  have ge: "(0 \<le> (1 - of_int n / (2 * 5) :: real)) \<longleftrightarrow> n \<le> 10" for n :: int
  proof -
    have "(0 \<le> (1 - of_int n / (2 * 5) :: real)) \<longleftrightarrow> (of_int n :: real) \<le> of_int 10" by simp
    also have "\<dots> \<longleftrightarrow> n \<le> 10" by (simp only: of_int_le_iff)
    finally show ?thesis .
  qed
  have "calculate_score_accuracy p a = 1 - of_int n1 / (2 * 5) \<and>
    calculate_goal_difference_accuracy p a = 1 - of_int n2 / (2 * 5) \<and>
    calculate_score_accuracy p a \<le> 1 \<and>
    calculate_goal_difference_accuracy p a \<le> 1 \<and>
    (0 \<le> calculate_score_accuracy p a \<longleftrightarrow> n1 \<le> 10) \<and>
    (0 \<le> calculate_goal_difference_accuracy p a \<longleftrightarrow> n2 \<le> 10)"
    using s g le [OF n1] le [OF n2] ge [of n1] ge [of n2] by (simp only: simp_thms)
  then show ?thesis unfolding n1_def n2_def .
qed

theorem accuracy_formula_unclamped_witness:
  "calculate_score_accuracy \<lparr>home = 2, away = 1\<rparr> \<lparr>home = 3, away = 1\<rparr> = 9 / 10 \<and>
   calculate_goal_difference_accuracy \<lparr>home = 2, away = 1\<rparr> \<lparr>home = 3, away = 1\<rparr> = 9 / 10"
  using accuracy_formula_unclamped [of "\<lparr>home = 2, away = 1\<rparr>" "\<lparr>home = 3, away = 1\<rparr>"]
  by simp

theorem accuracy_below_zero:
  "calculate_score_accuracy \<lparr>home = 0, away = 0\<rparr> \<lparr>home = 6, away = 6\<rparr> = - (1 / 5) \<and>
   calculate_goal_difference_accuracy \<lparr>home = 6, away = 0\<rparr> \<lparr>home = 0, away = 6\<rparr> = - (1 / 5) \<and>
   \<not> 0 \<le> calculate_score_accuracy \<lparr>home = 0, away = 0\<rparr> \<lparr>home = 6, away = 6\<rparr> \<and>
   \<not> 0 \<le> calculate_goal_difference_accuracy \<lparr>home = 6, away = 0\<rparr> \<lparr>home = 0, away = 6\<rparr>"
  by (simp add: calculate_score_accuracy_def calculate_goal_difference_accuracy_def)

text \<open>
  C9. Settling is idempotent: a settlement depends only on the prediction data, the stake, the
  potential return and the match, so settling a row in which a settlement is already stored
  yields the same status, profit or loss and points, and storing it again leaves the row as
  it is (no double counting).
\<close>

theorem settle_prediction_idempotent:
  "settle_prediction (store_settlement p (settle_prediction p m)) m = settle_prediction p m \<and>
   store_settlement (store_settlement p (settle_prediction p m))
     (settle_prediction (store_settlement p (settle_prediction p m)) m) =
   store_settlement p (settle_prediction p m)"
proof -
  have a: "\<And>s. settle_prediction (store_settlement p s) m = settle_prediction p m"
    by (simp add: settle_prediction_def store_settlement_def Let_def)
  have b: "\<And>s. store_settlement (store_settlement p s) s = store_settlement p s"
    by (simp add: store_settlement_def)
  show ?thesis by (simp only: a b)
qed

theorem settle_prediction_idempotent_witness:
  "settle_prediction
     (store_settlement
        \<lparr>status = PENDING, profit_loss = 0, points_earned = 0, performance_metrics = [],
         prediction_data = \<lparr>score_prediction = \<lparr>home = 2, away = 1\<rparr>, outcome = ''home_win''\<rparr>,
         stake_amount = 10, potential_return = 21\<rparr>
        (settle_prediction
           \<lparr>status = PENDING, profit_loss = 0, points_earned = 0, performance_metrics = [],
            prediction_data = \<lparr>score_prediction = \<lparr>home = 2, away = 1\<rparr>, outcome = ''home_win''\<rparr>,
            stake_amount = 10, potential_return = 21\<rparr>
           \<lparr>match_status = COMPLETED, score_data = \<lparr>home = 3, away = 1\<rparr>\<rparr>))
     \<lparr>match_status = COMPLETED, score_data = \<lparr>home = 3, away = 1\<rparr>\<rparr> =
   \<lparr>status = CORRECT, profit_loss = 11, points_earned = 10,
    performance_metrics = [(''score_accuracy'', 9 / 10), (''goal_difference_accuracy'', 9 / 10)]\<rparr>"
proof -
  have "settle_prediction
      \<lparr>status = PENDING, profit_loss = 0, points_earned = 0, performance_metrics = [],
       prediction_data = \<lparr>score_prediction = \<lparr>home = 2, away = 1\<rparr>, outcome = ''home_win''\<rparr>,
       stake_amount = 10, potential_return = 21\<rparr>
      \<lparr>match_status = COMPLETED, score_data = \<lparr>home = 3, away = 1\<rparr>\<rparr> =
    \<lparr>status = CORRECT, profit_loss = 11, points_earned = 10,
     performance_metrics = [(''score_accuracy'', 9 / 10), (''goal_difference_accuracy'', 9 / 10)]\<rparr>"
    by (simp add: settle_prediction_def is_finished_def get_match_outcome_def
        calculate_score_accuracy_def calculate_goal_difference_accuracy_def)
  then show ?thesis
    using settle_prediction_idempotent
      [of "\<lparr>status = PENDING, profit_loss = 0, points_earned = 0, performance_metrics = [],
            prediction_data = \<lparr>score_prediction = \<lparr>home = 2, away = 1\<rparr>, outcome = ''home_win''\<rparr>,
            stake_amount = 10, potential_return = 21\<rparr>"
          "\<lparr>match_status = COMPLETED, score_data = \<lparr>home = 3, away = 1\<rparr>\<rparr>"]
    by (simp only:)
qed

section \<open>Value and edge analyzer\<close>

lemma py_getitem_eq_Inr: "py_getitem d k = Inr v \<longleftrightarrow> map_of d k = Some v"
  by (simp add: py_getitem_def split: option.splits)

lemma map_of_present: "k \<in> set (map fst d) \<Longrightarrow> \<exists>v. map_of d k = Some v"
  using map_of_eq_None_iff [of d k] by auto

lemma py_getitem_None: "map_of d k = None \<Longrightarrow> py_getitem d k = Inl KeyError"
  by (simp add: py_getitem_def)

lemma max_by_value_in: "max_by_value best xs \<in> set (best # xs)"
  by (induction xs arbitrary: best) auto

lemma py_max_item_in: "py_max_item es = Inr m \<Longrightarrow> m \<in> set es"
proof (cases es)
  case Nil
  assume "py_max_item es = Inr m"
  with Nil show ?thesis by (simp add: py_max_item_def)
next
  case (Cons x xs)
  assume "py_max_item es = Inr m"
  with Cons have "m = max_by_value x xs" by (simp add: py_max_item_def)
  with Cons show ?thesis using max_by_value_in [of x xs] by simp
qed

lemma total_implied_prob_returns:
  "list_all (\<lambda>kv. 1 < snd kv) odds \<Longrightarrow>
   \<exists>t. total_implied_prob odds = Inr t \<and> 0 \<le> t \<and> (odds \<noteq> [] \<longrightarrow> 0 < t)"
proof (induction odds)
  case Nil
  then show ?case by simp
next
  case (Cons a odds)
  obtain k v where a: "a = (k, v)" by (cases a)
  from Cons.prems a have v: "1 < v" by simp
  from Cons obtain t where t: "total_implied_prob odds = Inr t" "0 \<le> t" by auto
  from v have "0 < 1 / v" by simp
  with t have "0 < 1 / v + t" by linarith
  with a v t show ?case by simp
qed

lemma market_lookup:
  "map_of (map (\<lambda>(k, v). (k, f v)) odds) k = map_option f (map_of odds k)"
  by (induction odds) auto

lemma edges_keys: "edges ks prediction market = Inr es \<Longrightarrow> map fst es = ks"
  by (induction ks arbitrary: es) (auto simp: py_bind_eq_Inr)

lemma edges_market_present:
  "edges ks prediction market = Inr es \<Longrightarrow> k \<in> set ks \<Longrightarrow> map_of market k \<noteq> None"
  by (induction ks arbitrary: es) (auto simp: py_bind_eq_Inr py_getitem_eq_Inr)

lemma edges_prediction_present:
  "edges ks prediction market = Inr es \<Longrightarrow> k \<in> set ks \<Longrightarrow>
   map_of prediction (probability_key k) \<noteq> None"
  by (induction ks arbitrary: es) (auto simp: py_bind_eq_Inr py_getitem_eq_Inr)

lemma edges_returns:
  "list_all (\<lambda>k. map_of prediction (probability_key k) \<noteq> None \<and> map_of market k \<noteq> None) ks \<Longrightarrow>
   \<exists>es. edges ks prediction market = Inr es"
  by (induction ks) (auto simp: py_getitem_def)

lemma evaluate_prediction_quality_Inr:
  assumes "evaluate_prediction_quality prediction odds = Inr r"
  shows "\<exists>m kelly. max_edge_outcome prediction odds = Inr m \<and>
    best_bet r = fst m \<and> edge r = snd m \<and>
    kelly_fraction r = max 0 (min kelly 0.1) \<and>
    (0 < snd m \<longrightarrow> (\<exists>odd_value p. map_of odds (fst m) = Some odd_value \<and>
        map_of prediction (probability_key (fst m)) = Some p \<and> odd_value - 1 \<noteq> 0 \<and>
        kelly = (odd_value * p - 1) / (odd_value - 1))) \<and>
    (\<not> 0 < snd m \<longrightarrow> kelly = 0)"
proof -
  from assms obtain t market es m kelly conf where
    1: "total_implied_prob odds = Inr t" "market_probabilities odds t = Inr market"
       "edges [''HOME_WIN'', ''DRAW'', ''AWAY_WIN''] prediction market = Inr es"
       "py_max_item es = Inr m" and
    2: "(if 0 < snd m then
          py_bind (py_getitem odds (fst m)) (\<lambda>odd_value.
          py_bind (py_getitem prediction (probability_key (fst m))) (\<lambda>p.
            if odd_value - 1 = 0 then Inl ZeroDivisionError
            else Inr ((odd_value * p - 1) / (odd_value - 1))))
        else Inr 0) = Inr kelly" and
    3: "r = \<lparr>best_bet = fst m, edge = snd m, kelly_fraction = max 0 (min kelly 0.1),
            value_rating = snd m * conf, market_efficiency = 1 - \<bar>1 - t\<bar>\<rparr>"
    unfolding evaluate_prediction_quality_def py_bind_eq_Inr by blast
  from 1 have m: "max_edge_outcome prediction odds = Inr m"
    by (simp add: max_edge_outcome_def)
  have pos: "\<exists>odd_value p. map_of odds (fst m) = Some odd_value \<and>
        map_of prediction (probability_key (fst m)) = Some p \<and> odd_value - 1 \<noteq> 0 \<and>
        kelly = (odd_value * p - 1) / (odd_value - 1)" if "0 < snd m"
  proof -
    from 2 that obtain odd_value p where
      "py_getitem odds (fst m) = Inr odd_value"
      "py_getitem prediction (probability_key (fst m)) = Inr p"
      "(if odd_value - 1 = 0 then Inl ZeroDivisionError
        else Inr ((odd_value * p - 1) / (odd_value - 1))) = Inr kelly"
      by (auto simp: py_bind_eq_Inr)
    then show ?thesis
      by (cases "odd_value - 1 = 0") (auto simp: py_getitem_eq_Inr)
  qed
  have npos: "kelly = 0" if "\<not> 0 < snd m" using 2 that by simp
  from 3 have f: "best_bet r = fst m" "edge r = snd m" "kelly_fraction r = max 0 (min kelly 0.1)"
    by simp_all
  show ?thesis
    by (intro exI [of _ m] exI [of _ kelly] conjI impI m f pos npos)
qed

lemma evaluate_prediction_quality_best:
  "evaluate_prediction_quality prediction odds = Inr r \<Longrightarrow>
   max_edge_outcome prediction odds = Inr (best_bet r, edge r)"
  using evaluate_prediction_quality_Inr [of prediction odds r] by auto

lemma clamp_bounds: "0 \<le> max 0 (min k (1 / 10 :: real)) \<and> max 0 (min k (1 / 10)) \<le> 1 / 10"
  by (simp add: max_def min_def)

lemma kelly_fraction_bounds:
  assumes "evaluate_prediction_quality prediction odds = Inr r"
  shows "0 \<le> kelly_fraction r \<and> kelly_fraction r \<le> 1 / 10"
proof -
  from evaluate_prediction_quality_Inr [OF assms]
  obtain kelly where "kelly_fraction r = max 0 (min kelly (1 / 10))" by blast
  then show ?thesis by (simp only: clamp_bounds)
qed

lemma kelly_fraction_no_edge:
  "evaluate_prediction_quality prediction odds = Inr r \<Longrightarrow> \<not> 0 < edge r \<Longrightarrow>
   kelly_fraction r = 0"
  using evaluate_prediction_quality_Inr [of prediction odds r] by auto

lemma kelly_fraction_edge:
  "evaluate_prediction_quality prediction odds = Inr r \<Longrightarrow> 0 < edge r \<Longrightarrow>
   \<exists>odd_value p. map_of odds (best_bet r) = Some odd_value \<and>
     map_of prediction (probability_key (best_bet r)) = Some p \<and> odd_value - 1 \<noteq> 0 \<and>
     kelly_fraction r = max 0 (min ((odd_value * p - 1) / (odd_value - 1)) (1 / 10))"
  using evaluate_prediction_quality_Inr [of prediction odds r] by auto

lemma max_edge_outcome_returns:
  assumes "quotable_odds odds" "complete_prediction prediction"
  obtains m where "max_edge_outcome prediction odds = Inr m"
    "fst m \<in> set [''HOME_WIN'', ''DRAW'', ''AWAY_WIN'']"
proof -
  from assms(1) have all: "list_all (\<lambda>kv. 1 < snd kv) odds"
    and keys: "list_all (\<lambda>k. map_of odds k \<noteq> None) [''HOME_WIN'', ''DRAW'', ''AWAY_WIN'']"
    by (simp_all add: quotable_odds_def map_of_eq_None_iff)
  from keys have ne: "odds \<noteq> []" by auto
  from total_implied_prob_returns [OF all] ne obtain t where
    t: "total_implied_prob odds = Inr t" "0 < t" by blast
  define market where "market = map (\<lambda>(k, v). (k, (1 / v) / t)) odds"
  from t have mp: "market_probabilities odds t = Inr market"
    by (simp add: market_probabilities_def market_def)
  have "list_all (\<lambda>k. map_of prediction (probability_key k) \<noteq> None \<and> map_of market k \<noteq> None)
     [''HOME_WIN'', ''DRAW'', ''AWAY_WIN'']"
    using keys assms(2)
    by (simp add: market_def market_lookup complete_prediction_def probability_key_def
        map_of_eq_None_iff)
  from edges_returns [OF this] obtain es where
    es: "edges [''HOME_WIN'', ''DRAW'', ''AWAY_WIN''] prediction market = Inr es" by blast
  from edges_keys [OF es] have k: "map fst es = [''HOME_WIN'', ''DRAW'', ''AWAY_WIN'']" .
  then obtain x xs where xs: "es = x # xs" by (cases es) auto
  define m where "m = max_by_value x xs"
  have pm: "py_max_item es = Inr m" by (simp add: py_max_item_def xs m_def)
  from py_max_item_in [OF pm] have "fst m \<in> fst ` set es" by simp
  also have "fst ` set es = set (map fst es)" by simp
  finally have "fst m \<in> set [''HOME_WIN'', ''DRAW'', ''AWAY_WIN'']" by (simp only: k)
  moreover from t mp es pm have "max_edge_outcome prediction odds = Inr m"
    by (simp add: max_edge_outcome_def)
  ultimately show ?thesis using that by blast
qed

lemma evaluate_prediction_quality_returns:
  assumes q: "quotable_odds odds" and c: "complete_prediction prediction"
  shows "\<exists>r. evaluate_prediction_quality prediction odds = Inr r"
proof -
  from max_edge_outcome_returns [OF q c] obtain m where
    m: "max_edge_outcome prediction odds = Inr m" and
    km: "fst m \<in> set [''HOME_WIN'', ''DRAW'', ''AWAY_WIN'']" by blast
  from m obtain t market es where
    1: "total_implied_prob odds = Inr t" "market_probabilities odds t = Inr market"
       "edges [''HOME_WIN'', ''DRAW'', ''AWAY_WIN''] prediction market = Inr es"
       "py_max_item es = Inr m"
    unfolding max_edge_outcome_def py_bind_eq_Inr by blast
  from q km have "fst m \<in> set (map fst odds)"
    unfolding quotable_odds_def list_all_iff by blast
  from map_of_present [OF this] obtain odd_value where
    o: "map_of odds (fst m) = Some odd_value" by blast
  then have "(fst m, odd_value) \<in> set odds" by (rule map_of_SomeD)
  with q have gt: "1 < odd_value" by (auto simp: quotable_odds_def list_all_iff)
  from c km have "probability_key (fst m) \<in> set (map fst prediction)"
    by (auto simp: complete_prediction_def probability_key_def)
  from map_of_present [OF this] obtain p where
    p: "map_of prediction (probability_key (fst m)) = Some p" by blast
  from c have "''confidence'' \<in> set (map fst prediction)"
    by (simp add: complete_prediction_def)
  from map_of_present [OF this] obtain conf where
    conf: "map_of prediction ''confidence'' = Some conf" by blast
  from 1 o p conf gt show ?thesis
    by (simp add: evaluate_prediction_quality_def py_getitem_def)
qed

lemma example_quality:
  "evaluate_prediction_quality
     [(''home_win_probability'', 0.55), (''draw_probability'', 0.25),
      (''away_win_probability'', 0.2), (''confidence'', 0.55)]
     [(''HOME_WIN'', 2.1), (''DRAW'', 3.4), (''AWAY_WIN'', 3.8)] =
   Inr \<lparr>best_bet = ''HOME_WIN'', edge = 1251 / 14020, kelly_fraction = 1 / 10,
        value_rating = 13761 / 280400, market_efficiency = 6556 / 6783\<rparr>"
  by (simp add: evaluate_prediction_quality_def market_probabilities_def probability_key_def
      py_getitem_def py_max_item_def)

lemma evaluate_prediction_quality_raises_on_missing_odds:
  assumes k: "k \<in> set [''HOME_WIN'', ''DRAW'', ''AWAY_WIN'']" and none: "map_of odds k = None"
  shows "\<exists>e. evaluate_prediction_quality prediction odds = Inl e"
proof (cases "evaluate_prediction_quality prediction odds")
  case (Inl e)
  then show ?thesis by blast
next
  case (Inr r)
  from evaluate_prediction_quality_Inr [OF Inr] obtain m where
    "max_edge_outcome prediction odds = Inr m" by blast
  then obtain t market es where
    mp: "market_probabilities odds t = Inr market" and
    es: "edges [''HOME_WIN'', ''DRAW'', ''AWAY_WIN''] prediction market = Inr es"
    unfolding max_edge_outcome_def py_bind_eq_Inr by blast
  from mp have "market = map (\<lambda>(k, v). (k, (1 / v) / t)) odds"
    by (simp add: market_probabilities_def split: if_splits)
  with none have "map_of market k = None" by (simp only: market_lookup) simp
  with edges_market_present [OF es k] show ?thesis by simp
qed

lemma evaluate_prediction_quality_raises_on_unit_odds:
  assumes m: "max_edge_outcome prediction odds = Inr (b, e)" and e: "0 < e"
    and o: "map_of odds b = Some 1"
  shows "evaluate_prediction_quality prediction odds = Inl ZeroDivisionError"
proof -
  from m obtain t market es where
    1: "total_implied_prob odds = Inr t" "market_probabilities odds t = Inr market"
       "edges [''HOME_WIN'', ''DRAW'', ''AWAY_WIN''] prediction market = Inr es"
       "py_max_item es = Inr (b, e)"
    unfolding max_edge_outcome_def py_bind_eq_Inr by blast
  from py_max_item_in [OF 1(4)] have "b \<in> fst ` set es" by force
  also have "fst ` set es = set (map fst es)" by simp
  finally have b: "b \<in> set [''HOME_WIN'', ''DRAW'', ''AWAY_WIN'']"
    by (simp only: edges_keys [OF 1(3)])
  from edges_prediction_present [OF 1(3) b] obtain p where
    p: "map_of prediction (probability_key b) = Some p" by blast
  from 1 e o p show ?thesis
    by (simp add: evaluate_prediction_quality_def py_getitem_def)
qed

text \<open>
  C3. Whenever the function returns, the Kelly fraction lies in \<open>[0, 0.10]\<close>; when the best
  bet's edge is positive and its odds exceed 1 it is
  \<open>(odds * modelProbability - 1) / (odds - 1)\<close> clamped into that interval; and the function
  does return for odds that quote the three outcomes above 1.
\<close>

theorem kelly_fraction_clamped:
  "(\<forall>r. evaluate_prediction_quality prediction odds = Inr r \<longrightarrow>
      0 \<le> kelly_fraction r \<and> kelly_fraction r \<le> 1 / 10 \<and>
      (0 < edge r \<longrightarrow>
         (\<forall>odd_value. map_of odds (best_bet r) = Some odd_value \<longrightarrow> 1 < odd_value \<longrightarrow>
            (\<exists>p. map_of prediction (probability_key (best_bet r)) = Some p \<and>
                 kelly_fraction r = max 0 (min ((odd_value * p - 1) / (odd_value - 1)) (1 / 10)))))) \<and>
   (quotable_odds odds \<and> complete_prediction prediction \<longrightarrow>
      (\<exists>r. evaluate_prediction_quality prediction odds = Inr r))"
proof (intro conjI allI impI)
  fix r assume r: "evaluate_prediction_quality prediction odds = Inr r"
  from kelly_fraction_bounds [OF r]
  show "0 \<le> kelly_fraction r" and "kelly_fraction r \<le> 1 / 10" by simp_all
next
  fix r odd_value
  assume r: "evaluate_prediction_quality prediction odds = Inr r"
    and e: "0 < edge r" and o: "map_of odds (best_bet r) = Some odd_value"
  from kelly_fraction_edge [OF r e] o
  show "\<exists>p. map_of prediction (probability_key (best_bet r)) = Some p \<and>
      kelly_fraction r = max 0 (min ((odd_value * p - 1) / (odd_value - 1)) (1 / 10))"
    by auto
next
  assume "quotable_odds odds \<and> complete_prediction prediction"
  then show "\<exists>r. evaluate_prediction_quality prediction odds = Inr r"
    by (simp add: evaluate_prediction_quality_returns)
qed

theorem kelly_fraction_clamped_witness:
  "quotable_odds [(''HOME_WIN'', 2.1), (''DRAW'', 3.4), (''AWAY_WIN'', 3.8)] \<and>
   complete_prediction
     [(''home_win_probability'', 0.55), (''draw_probability'', 0.25),
      (''away_win_probability'', 0.2), (''confidence'', 0.55)] \<and>
   (\<exists>r. evaluate_prediction_quality
          [(''home_win_probability'', 0.55), (''draw_probability'', 0.25),
           (''away_win_probability'', 0.2), (''confidence'', 0.55)]
          [(''HOME_WIN'', 2.1), (''DRAW'', 3.4), (''AWAY_WIN'', 3.8)] = Inr r \<and>
        0 < edge r \<and> best_bet r = ''HOME_WIN'' \<and>
        kelly_fraction r = max 0 (min ((2.1 * 0.55 - 1) / (2.1 - 1)) (1 / 10)))"
proof -
  let ?P = "[(''home_win_probability'', 0.55), (''draw_probability'', 0.25),
      (''away_win_probability'', 0.2), (''confidence'', 0.55 :: real)]"
  let ?O = "[(''HOME_WIN'', 2.1), (''DRAW'', 3.4), (''AWAY_WIN'', 3.8 :: real)]"
  have q: "quotable_odds ?O" by (simp add: quotable_odds_def)
  have c: "complete_prediction ?P" by (simp add: complete_prediction_def)
  from kelly_fraction_clamped [of ?P ?O] q c obtain r where
    r: "evaluate_prediction_quality ?P ?O = Inr r" by blast
  with example_quality have
    v: "r = \<lparr>best_bet = ''HOME_WIN'', edge = 1251 / 14020, kelly_fraction = 1 / 10,
        value_rating = 13761 / 280400, market_efficiency = 6556 / 6783\<rparr>" by simp
  have "0 < edge r" "best_bet r = ''HOME_WIN''"
    "kelly_fraction r = max 0 (min ((2.1 * 0.55 - 1) / (2.1 - 1)) (1 / 10))"
    by (simp_all add: v)
  with q c r show ?thesis by blast
qed

text \<open>
  C4 (amended). When the odds lack an entry for one of the three outcomes the function raises;
  when the best bet has a positive edge and odds exactly 1.0 it raises \<open>ZeroDivisionError\<close>;
  and whenever it returns with a best-bet edge that is not positive, the Kelly fraction is 0.
\<close>

theorem kelly_degenerate_odds:
  "(k \<in> set [''HOME_WIN'', ''DRAW'', ''AWAY_WIN''] \<longrightarrow> map_of odds k = None \<longrightarrow>
      (\<exists>e. evaluate_prediction_quality prediction odds = Inl e)) \<and>
   (max_edge_outcome prediction odds = Inr (b, e) \<longrightarrow> 0 < e \<longrightarrow> map_of odds b = Some 1 \<longrightarrow>
      evaluate_prediction_quality prediction odds = Inl ZeroDivisionError) \<and>
   (evaluate_prediction_quality prediction odds = Inr r \<longrightarrow> edge r \<le> 0 \<longrightarrow> kelly_fraction r = 0)"
proof (intro conjI impI)
  assume "k \<in> set [''HOME_WIN'', ''DRAW'', ''AWAY_WIN'']" "map_of odds k = None"
  then show "\<exists>e. evaluate_prediction_quality prediction odds = Inl e"
    by (rule evaluate_prediction_quality_raises_on_missing_odds)
next
  assume "max_edge_outcome prediction odds = Inr (b, e)" "0 < e" "map_of odds b = Some 1"
  then show "evaluate_prediction_quality prediction odds = Inl ZeroDivisionError"
    by (rule evaluate_prediction_quality_raises_on_unit_odds)
next
  assume r: "evaluate_prediction_quality prediction odds = Inr r" and e: "edge r \<le> 0"
  then have "\<not> 0 < edge r" by simp
  with r show "kelly_fraction r = 0" by (rule kelly_fraction_no_edge)
qed

theorem kelly_degenerate_odds_witness:
  "(\<exists>e. evaluate_prediction_quality
          [(''home_win_probability'', 0.2), (''draw_probability'', 0.25),
           (''away_win_probability'', 0.55), (''confidence'', 0.55)]
          [(''HOME_WIN'', 2.1), (''DRAW'', 3.4)] = Inl e) \<and>
   max_edge_outcome
     [(''home_win_probability'', 0.55), (''draw_probability'', 0.25),
      (''away_win_probability'', 0.2), (''confidence'', 0.55)]
     [(''HOME_WIN'', 1), (''DRAW'', 1), (''AWAY_WIN'', 1)] = Inr (''HOME_WIN'', 13 / 60) \<and>
   evaluate_prediction_quality
     [(''home_win_probability'', 0.55), (''draw_probability'', 0.25),
      (''away_win_probability'', 0.2), (''confidence'', 0.55)]
     [(''HOME_WIN'', 1), (''DRAW'', 1), (''AWAY_WIN'', 1)] = Inl ZeroDivisionError \<and>
   (\<exists>r. evaluate_prediction_quality
          [(''home_win_probability'', 1 / 3), (''draw_probability'', 1 / 3),
           (''away_win_probability'', 1 / 3), (''confidence'', 0.5)]
          [(''HOME_WIN'', 3), (''DRAW'', 3), (''AWAY_WIN'', 3)] = Inr r \<and>
        edge r \<le> 0 \<and> kelly_fraction r = 0)"
proof -
  let ?P = "[(''home_win_probability'', 0.55), (''draw_probability'', 0.25),
      (''away_win_probability'', 0.2), (''confidence'', 0.55 :: real)]"
  let ?O = "[(''HOME_WIN'', 1), (''DRAW'', 1), (''AWAY_WIN'', 1 :: real)]"
  let ?P2 = "[(''home_win_probability'', 0.2), (''draw_probability'', 0.25),
      (''away_win_probability'', 0.55), (''confidence'', 0.55 :: real)]"
  let ?O2 = "[(''HOME_WIN'', 2.1), (''DRAW'', 3.4 :: real)]"
  let ?P3 = "[(''home_win_probability'', 1 / 3), (''draw_probability'', 1 / 3),
      (''away_win_probability'', 1 / 3), (''confidence'', 0.5 :: real)]"
  let ?O3 = "[(''HOME_WIN'', 3), (''DRAW'', 3), (''AWAY_WIN'', 3 :: real)]"
  have k: "''AWAY_WIN'' \<in> set [''HOME_WIN'', ''DRAW'', ''AWAY_WIN'']" by simp
  have n: "map_of ?O2 ''AWAY_WIN'' = None" by simp
  from kelly_degenerate_odds [of "''AWAY_WIN''" ?O2 ?P2] k n
  have 1: "\<exists>e. evaluate_prediction_quality ?P2 ?O2 = Inl e" by blast
  have m: "max_edge_outcome ?P ?O = Inr (''HOME_WIN'', 13 / 60)"
    by (simp add: max_edge_outcome_def market_probabilities_def probability_key_def
        py_getitem_def py_max_item_def)
  have e: "(0::real) < 13 / 60" by simp
  have o: "map_of ?O ''HOME_WIN'' = Some 1" by simp
  from kelly_degenerate_odds [of _ ?O ?P "''HOME_WIN''" "13 / 60"] m e o
  have 2: "evaluate_prediction_quality ?P ?O = Inl ZeroDivisionError" by blast
  have r: "evaluate_prediction_quality ?P3 ?O3 =
      Inr \<lparr>best_bet = ''HOME_WIN'', edge = 0, kelly_fraction = 0, value_rating = 0,
           market_efficiency = 1\<rparr>"
    by (simp add: evaluate_prediction_quality_def market_probabilities_def probability_key_def
        py_getitem_def py_max_item_def)
  have z: "edge \<lparr>best_bet = ''HOME_WIN'', edge = 0, kelly_fraction = 0, value_rating = 0,
           market_efficiency = 1\<rparr> \<le> 0" by simp
  from kelly_degenerate_odds [of _ ?O3 ?P3 _ _
      "\<lparr>best_bet = ''HOME_WIN'', edge = 0, kelly_fraction = 0, value_rating = 0,
        market_efficiency = 1\<rparr>"] r z
  have "kelly_fraction \<lparr>best_bet = ''HOME_WIN'', edge = 0, kelly_fraction = 0, value_rating = 0,
           market_efficiency = 1\<rparr> = 0" by blast
  with r z have 3: "\<exists>r. evaluate_prediction_quality ?P3 ?O3 = Inr r \<and> edge r \<le> 0 \<and>
      kelly_fraction r = 0" by blast
  from 1 m 2 3 show ?thesis by (intro conjI)
qed

theorem kelly_not_forced_to_zero:
  "evaluate_prediction_quality
     [(''home_win_probability'', 0.55), (''draw_probability'', 0.25),
      (''away_win_probability'', 0.2), (''confidence'', 0.55)]
     [(''HOME_WIN'', 1), (''DRAW'', 1), (''AWAY_WIN'', 1)] = Inl ZeroDivisionError \<and>
   evaluate_prediction_quality
     [(''home_win_probability'', 0.2), (''draw_probability'', 0.25),
      (''away_win_probability'', 0.55), (''confidence'', 0.55)]
     [(''HOME_WIN'', 2.1), (''DRAW'', 3.4)] = Inl KeyError \<and>
   evaluate_prediction_quality
     [(''home_win_probability'', 0.55), (''draw_probability'', 0.25),
      (''away_win_probability'', 0.2), (''confidence'', 0.55)]
     [(''HOME_WIN'', 0.5), (''DRAW'', 0.5), (''AWAY_WIN'', 0.5)] =
   Inr \<lparr>best_bet = ''HOME_WIN'', edge = 13 / 60, kelly_fraction = 1 / 10,
        value_rating = 143 / 1200, market_efficiency = - 4\<rparr>"
  by (simp add: evaluate_prediction_quality_def market_probabilities_def probability_key_def
      py_getitem_def py_max_item_def)

section \<open>Consistency score\<close>

lemma sum_list_nth_lessThan: "sum_list xs = (\<Sum>i<length xs. xs ! i)"
  by (simp add: sum_list_sum_nth atLeast0LessThan)

lemma np_var_population_variance: "np_var xs = population_variance xs"
proof -
  define mu where "mu = (\<Sum>j<length xs. xs ! j) / of_nat (length xs)"
  have m: "np_mean xs = mu"
    by (simp only: np_mean_def mu_def sum_list_nth_lessThan [of xs])
  have "np_var xs = np_mean (map (\<lambda>x. (x - mu)\<^sup>2) xs)"
    by (simp only: np_var_def m)
  also have "\<dots> = sum_list (map (\<lambda>x. (x - mu)\<^sup>2) xs) / of_nat (length xs)"
    by (simp add: np_mean_def)
  also have "sum_list (map (\<lambda>x. (x - mu)\<^sup>2) xs) = (\<Sum>i<length xs. (xs ! i - mu)\<^sup>2)"
    by (simp add: sum_list_nth_lessThan [of "map (\<lambda>x. (x - mu)\<^sup>2) xs"])
  finally show ?thesis by (simp only: population_variance_def mu_def)
qed

lemma unique_outcomes_count:
  "length (remdups (map (\<lambda>p. predicted_outcome (snd p)) ps)) = distinct_outcome_count ps"
  by (simp add: length_remdups_card_conv distinct_outcome_count_def)

text \<open>
  C7. For two or more forecasts \<open>_calculate_consistency\<close> returns
  \<open>round((1 / (1 + averageScoreVariance)) * (1 / distinctOutcomeCount), 2)\<close>, and for a single
  forecast it returns exactly 1.
\<close>

theorem calculate_consistency_formula:
  "(2 \<le> length ps \<longrightarrow> calculate_consistency ps = spec_consistency ps) \<and>
   (length ps = 1 \<longrightarrow> calculate_consistency ps = 1)"
proof (intro conjI impI)
  assume "2 \<le> length ps"
  then have "\<not> length ps < 2" by simp
  then show "calculate_consistency ps = spec_consistency ps"
    by (simp add: calculate_consistency_def spec_consistency_def average_score_variance_def
        np_var_population_variance unique_outcomes_count Let_def mult.commute)
next
  assume "length ps = 1"
  then show "calculate_consistency ps = 1" by (simp add: calculate_consistency_def)
qed

theorem calculate_consistency_formula_witness:
  "calculate_consistency
     [(''gpt4'', \<lparr>score_prediction = \<lparr>home = 2, away = 1\<rparr>, predicted_outcome = ''home_win'',
                 confidence = 0.8, reasoning = [], key_factors = [], risk_assessment = ''medium''\<rparr>),
      (''deepseek'', \<lparr>score_prediction = \<lparr>home = 1, away = 1\<rparr>, predicted_outcome = ''home_win'',
                 confidence = 0.6, reasoning = [], key_factors = [], risk_assessment = ''medium''\<rparr>)] =
     89 / 100 \<and>
   spec_consistency
     [(''gpt4'', \<lparr>score_prediction = \<lparr>home = 2, away = 1\<rparr>, predicted_outcome = ''home_win'',
                 confidence = 0.8, reasoning = [], key_factors = [], risk_assessment = ''medium''\<rparr>),
      (''deepseek'', \<lparr>score_prediction = \<lparr>home = 1, away = 1\<rparr>, predicted_outcome = ''home_win'',
                 confidence = 0.6, reasoning = [], key_factors = [], risk_assessment = ''medium''\<rparr>)] =
     89 / 100 \<and>
   calculate_consistency
     [(''gpt4'', \<lparr>score_prediction = \<lparr>home = 2, away = 1\<rparr>, predicted_outcome = ''home_win'',
                 confidence = 0.9, reasoning = [], key_factors = [], risk_assessment = ''medium''\<rparr>)] = 1"
proof -
  let ?ps = "[(''gpt4'', \<lparr>score_prediction = \<lparr>home = 2, away = 1\<rparr>, predicted_outcome = ''home_win'',
                 confidence = 0.8, reasoning = [], key_factors = [], risk_assessment = ''medium''\<rparr>),
      (''deepseek'', \<lparr>score_prediction = \<lparr>home = 1, away = 1\<rparr>, predicted_outcome = ''home_win'',
                 confidence = 0.6, reasoning = [], key_factors = [], risk_assessment = ''medium''\<rparr>)]"
  let ?single = "[(''gpt4'', \<lparr>score_prediction = \<lparr>home = 2, away = 1\<rparr>, predicted_outcome = ''home_win'',
                 confidence = 0.9, reasoning = [], key_factors = [], risk_assessment = ''medium''\<rparr>)]"
  have v: "calculate_consistency ?ps = 89 / 100"
    by (simp add: calculate_consistency_def np_var_def np_mean_def py_round2_def py_round_def
        power2_eq_square)
  have "2 \<le> length ?ps" by simp
  with calculate_consistency_formula [of ?ps] have "calculate_consistency ?ps = spec_consistency ?ps"
    by blast
  with v have s: "spec_consistency ?ps = 89 / 100" by simp
  have "length ?single = 1" by simp
  with calculate_consistency_formula [of ?single] have "calculate_consistency ?single = 1"
    by blast
  with v s show ?thesis by blast
qed

section \<open>Ensemble aggregator\<close>

lemma max_by_value_split:
  "\<exists>pre post. best # xs = pre @ max_by_value best xs # post \<and>
     (\<forall>z \<in> set pre. snd z < snd (max_by_value best xs)) \<and>
     (\<forall>z \<in> set post. snd z \<le> snd (max_by_value best xs))"
proof (induction xs arbitrary: best)
  case Nil
  show ?case by (intro exI [of _ "[]"]) simp
next
  case (Cons y ys)
  show ?case
  proof (cases "snd best < snd y")
    case True
    then have step: "max_by_value best (y # ys) = max_by_value y ys" by simp
    from Cons.IH [of y] obtain pre post where
      s: "y # ys = pre @ max_by_value y ys # post" and
      lt: "\<forall>z \<in> set pre. snd z < snd (max_by_value y ys)" and
      le: "\<forall>z \<in> set post. snd z \<le> snd (max_by_value y ys)" by blast
    have "y \<in> set (pre @ max_by_value y ys # post)" by (simp only: s [symmetric]) simp
    with lt le have "snd y \<le> snd (max_by_value y ys)" by auto
    with True have b: "snd best < snd (max_by_value y ys)" by simp
    have 1: "best # y # ys = (best # pre) @ max_by_value y ys # post" using s by simp
    have 2: "\<forall>z \<in> set (best # pre). snd z < snd (max_by_value y ys)" using lt b by simp
    show ?thesis unfolding step
      by (intro exI [of _ "best # pre"] exI [of _ post] conjI 1 2 le)
  next
    case False
    then have step: "max_by_value best (y # ys) = max_by_value best ys" by simp
    from Cons.IH [of best] obtain pre post where
      s: "best # ys = pre @ max_by_value best ys # post" and
      lt: "\<forall>z \<in> set pre. snd z < snd (max_by_value best ys)" and
      le: "\<forall>z \<in> set post. snd z \<le> snd (max_by_value best ys)" by blast
    show ?thesis
    proof (cases pre)
      case Nil
      note e = s [unfolded Nil append_Nil list.inject]
      note m = e [THEN conjunct1, symmetric] and p = e [THEN conjunct2, symmetric]
      have 1: "best # y # ys = [] @ max_by_value best ys # (y # ys)" by (simp add: m)
      have 2: "\<forall>z \<in> set []. snd z < snd (max_by_value best ys)" by simp
      have 3: "\<forall>z \<in> set (y # ys). snd z \<le> snd (max_by_value best ys)"
        using le False by (simp add: m p)
      show ?thesis unfolding step
        by (intro exI [of _ "[]"] exI [of _ "y # ys"] conjI 1 2 3)
    next
      case (Cons b pre')
      note e = s [unfolded Cons append_Cons list.inject]
      note b = e [THEN conjunct1, symmetric] and ys = e [THEN conjunct2]
      from lt Cons b have bl: "snd best < snd (max_by_value best ys)" by simp
      with False have yl: "snd y < snd (max_by_value best ys)" by simp
      have 1: "best # y # ys = (best # y # pre') @ max_by_value best ys # post"
        by (simp only: append_Cons ys [symmetric])
      have 2: "\<forall>z \<in> set (best # y # pre'). snd z < snd (max_by_value best ys)"
        using lt Cons bl yl by simp
      show ?thesis unfolding step
        by (intro exI [of _ "best # y # pre'"] exI [of _ post] conjI 1 2 le)
    qed
  qed
qed

lemma update_present_keys:
  "map_of al k = Some v \<Longrightarrow> map fst (AList.update k v' al) = map fst al"
  by (induction al) (auto split: if_splits)

lemma aggregate_loop_keys:
  "aggregate_loop ps weights st = Inr st' \<Longrightarrow>
   map fst (outcome_mass st') = map fst (outcome_mass st)"
proof (induction ps arbitrary: st)
  case Nil
  then show ?case by simp
next
  case (Cons a ps)
  obtain model pred where a: "a = (model, pred)" by (cases a)
  from Cons.prems a obtain weight mass where
    w: "map_of weights model = Some weight" and
    m: "map_of (outcome_mass st) (predicted_outcome pred) = Some mass"
    by (auto split: option.splits)
  let ?st = "\<lparr>combined_scores_home =
                    combined_scores_home st + of_int (home (score_prediction pred)) * weight,
                  combined_scores_away =
                    combined_scores_away st + of_int (away (score_prediction pred)) * weight,
                  combined_confidence = combined_confidence st + confidence pred * weight,
                  outcome_mass = AList.update (predicted_outcome pred) (mass + weight) (outcome_mass st),
                  all_reasoning = all_reasoning st @ reasoning pred,
                  all_factors = all_factors st @ key_factors pred\<rparr>"
  from Cons.prems a w m have "aggregate_loop ps weights ?st = Inr st'" by simp
  from Cons.IH [OF this] have "map fst (outcome_mass st') = map fst (outcome_mass ?st)" .
  also have "\<dots> = map fst (outcome_mass st)" using m by (simp add: update_present_keys)
  finally show ?case .
qed

lemma weighted_aggregate_Inr:
  assumes "weighted_aggregate predictions weights = Inr r"
  shows "\<exists>st best. aggregate_loop predictions weights initial_aggregate_state = Inr st \<and>
     py_max_item (outcome_mass st) = Inr best \<and> predicted_outcome r = fst best \<and>
     outcome_probabilities r = outcome_mass st"
  using assms unfolding weighted_aggregate_def py_bind_eq_Inr by (auto simp: Let_def)

lemma tied_vote_aggregate:
  "weighted_aggregate
     [(''gpt4'', \<lparr>score_prediction = \<lparr>home = 0, away = 1\<rparr>, predicted_outcome = ''away_win'',
                 confidence = 0.8, reasoning = [], key_factors = [], risk_assessment = ''medium''\<rparr>),
      (''deepseek'', \<lparr>score_prediction = \<lparr>home = 1, away = 1\<rparr>, predicted_outcome = ''draw'',
                 confidence = 0.8, reasoning = [], key_factors = [], risk_assessment = ''medium''\<rparr>)]
     [(''gpt4'', 1 / 2), (''deepseek'', 1 / 2)] =
   Inr \<lparr>score_prediction = \<lparr>home = 0, away = 1\<rparr>, predicted_outcome = ''draw'',
        confidence = 4 / 5, reasoning = [], key_factors = [], risk_assessment = ''high'',
        model_agreement = False, consistency_score = 44 / 100,
        outcome_probabilities = [(''home_win'', 0), (''draw'', 1 / 2), (''away_win'', 1 / 2)]\<rparr>"
  by (simp add: weighted_aggregate_def initial_aggregate_state_def py_max_item_def
      calculate_consistency_def assess_risk_def np_var_def np_mean_def py_round2_def py_round_def
      power2_eq_square)

text \<open>
  C6 (amended). The winning outcome has maximal accumulated weight mass, and a tie on mass is
  broken by the fixed order \<open>home_win\<close>, \<open>draw\<close>, \<open>away_win\<close> of the mass dictionary: every
  outcome before the winner has strictly less mass, every outcome after it at most as much.
\<close>

theorem winning_outcome_first_maximum:
  assumes "weighted_aggregate predictions weights = Inr r"
  shows "map fst (outcome_probabilities r) = [''home_win'', ''draw'', ''away_win''] \<and>
    (\<exists>pre m post. outcome_probabilities r = pre @ (predicted_outcome r, m) # post \<and>
       (\<forall>z \<in> set pre. snd z < m) \<and> (\<forall>z \<in> set post. snd z \<le> m))"
proof -
  from weighted_aggregate_Inr [OF assms] obtain st best where
    l: "aggregate_loop predictions weights initial_aggregate_state = Inr st" and
    b: "py_max_item (outcome_mass st) = Inr best" and
    p: "predicted_outcome r = fst best" and o: "outcome_probabilities r = outcome_mass st"
    by blast
  from aggregate_loop_keys [OF l] have
    keys: "map fst (outcome_mass st) = [''home_win'', ''draw'', ''away_win'']"
    by (simp add: initial_aggregate_state_def)
  then obtain x xs where xs: "outcome_mass st = x # xs" by (cases "outcome_mass st") auto
  with b have best: "best = max_by_value x xs" by (simp add: py_max_item_def)
  from max_by_value_split [of x xs] obtain pre post where
    "x # xs = pre @ best # post" "\<forall>z \<in> set pre. snd z < snd best"
    "\<forall>z \<in> set post. snd z \<le> snd best"
    unfolding best by blast
  with xs o p have "outcome_probabilities r = pre @ (predicted_outcome r, snd best) # post \<and>
       (\<forall>z \<in> set pre. snd z < snd best) \<and> (\<forall>z \<in> set post. snd z \<le> snd best)"
    by simp
  then have "\<exists>pre m post. outcome_probabilities r = pre @ (predicted_outcome r, m) # post \<and>
       (\<forall>z \<in> set pre. snd z < m) \<and> (\<forall>z \<in> set post. snd z \<le> m)"
    by (intro exI [of _ pre] exI [of _ "snd best"] exI [of _ post])
  moreover from keys o have "map fst (outcome_probabilities r) = [''home_win'', ''draw'', ''away_win'']"
    by simp
  ultimately show ?thesis by (intro conjI)
qed

theorem winning_outcome_first_maximum_witness:
  "weighted_aggregate
     [(''gpt4'', \<lparr>score_prediction = \<lparr>home = 0, away = 1\<rparr>, predicted_outcome = ''away_win'',
                 confidence = 0.8, reasoning = [], key_factors = [], risk_assessment = ''medium''\<rparr>),
      (''deepseek'', \<lparr>score_prediction = \<lparr>home = 1, away = 1\<rparr>, predicted_outcome = ''draw'',
                 confidence = 0.8, reasoning = [], key_factors = [], risk_assessment = ''medium''\<rparr>)]
     [(''gpt4'', 1 / 2), (''deepseek'', 1 / 2)] =
   Inr \<lparr>score_prediction = \<lparr>home = 0, away = 1\<rparr>, predicted_outcome = ''draw'',
        confidence = 4 / 5, reasoning = [], key_factors = [], risk_assessment = ''high'',
        model_agreement = False, consistency_score = 44 / 100,
        outcome_probabilities = [(''home_win'', 0), (''draw'', 1 / 2), (''away_win'', 1 / 2)]\<rparr> \<and>
   (\<exists>pre m post.
      [(''home_win'', 0), (''draw'', 1 / 2), (''away_win'', 1 / 2)] = pre @ (''draw'', m) # post \<and>
      (\<forall>z \<in> set pre. snd z < m) \<and> (\<forall>z \<in> set post. snd z \<le> (m :: real)))"
  using winning_outcome_first_maximum [OF tied_vote_aggregate] tied_vote_aggregate
  by simp

theorem tie_not_broken_by_first_provider:
  "map_sum id predicted_outcome
     (weighted_aggregate
        [(''gpt4'', \<lparr>score_prediction = \<lparr>home = 0, away = 1\<rparr>, predicted_outcome = ''away_win'',
                    confidence = 0.8, reasoning = [], key_factors = [], risk_assessment = ''medium''\<rparr>),
         (''deepseek'', \<lparr>score_prediction = \<lparr>home = 1, away = 1\<rparr>, predicted_outcome = ''draw'',
                    confidence = 0.8, reasoning = [], key_factors = [], risk_assessment = ''medium''\<rparr>)]
        [(''gpt4'', 1 / 2), (''deepseek'', 1 / 2)]) = Inr ''draw'' \<and>
   spec_winning_outcome
     [(''gpt4'', \<lparr>score_prediction = \<lparr>home = 0, away = 1\<rparr>, predicted_outcome = ''away_win'',
                 confidence = 0.8, reasoning = [], key_factors = [], risk_assessment = ''medium''\<rparr>),
      (''deepseek'', \<lparr>score_prediction = \<lparr>home = 1, away = 1\<rparr>, predicted_outcome = ''draw'',
                 confidence = 0.8, reasoning = [], key_factors = [], risk_assessment = ''medium''\<rparr>)]
     [(''gpt4'', 1 / 2), (''deepseek'', 1 / 2)] = Some ''away_win'' \<and>
   calculate_dynamic_weights
     [(''gpt4'', \<lparr>score_prediction = \<lparr>home = 0, away = 1\<rparr>, predicted_outcome = ''away_win'',
                 confidence = 0.8, reasoning = [], key_factors = [], risk_assessment = ''medium''\<rparr>),
      (''deepseek'', \<lparr>score_prediction = \<lparr>home = 1, away = 1\<rparr>, predicted_outcome = ''draw'',
                 confidence = 0.8, reasoning = [], key_factors = [], risk_assessment = ''medium''\<rparr>)]
     [(''gpt4'', 0.5), (''deepseek'', 0.5)] = Inr [(''gpt4'', 1 / 2), (''deepseek'', 1 / 2)]"
proof (intro conjI)
  show "map_sum id predicted_outcome
     (weighted_aggregate
        [(''gpt4'', \<lparr>score_prediction = \<lparr>home = 0, away = 1\<rparr>, predicted_outcome = ''away_win'',
                    confidence = 0.8, reasoning = [], key_factors = [], risk_assessment = ''medium''\<rparr>),
         (''deepseek'', \<lparr>score_prediction = \<lparr>home = 1, away = 1\<rparr>, predicted_outcome = ''draw'',
                    confidence = 0.8, reasoning = [], key_factors = [], risk_assessment = ''medium''\<rparr>)]
        [(''gpt4'', 1 / 2), (''deepseek'', 1 / 2)]) = Inr ''draw''"
    by (simp only: tied_vote_aggregate) simp
next
  show "spec_winning_outcome
     [(''gpt4'', \<lparr>score_prediction = \<lparr>home = 0, away = 1\<rparr>, predicted_outcome = ''away_win'',
                 confidence = 0.8, reasoning = [], key_factors = [], risk_assessment = ''medium''\<rparr>),
      (''deepseek'', \<lparr>score_prediction = \<lparr>home = 1, away = 1\<rparr>, predicted_outcome = ''draw'',
                 confidence = 0.8, reasoning = [], key_factors = [], risk_assessment = ''medium''\<rparr>)]
     [(''gpt4'', 1 / 2), (''deepseek'', 1 / 2)] = Some ''away_win''"
    by (simp add: spec_winning_outcome_def outcome_weight_mass_def outcome_votes_def)
next
  show "calculate_dynamic_weights
     [(''gpt4'', \<lparr>score_prediction = \<lparr>home = 0, away = 1\<rparr>, predicted_outcome = ''away_win'',
                 confidence = 0.8, reasoning = [], key_factors = [], risk_assessment = ''medium''\<rparr>),
      (''deepseek'', \<lparr>score_prediction = \<lparr>home = 1, away = 1\<rparr>, predicted_outcome = ''draw'',
                 confidence = 0.8, reasoning = [], key_factors = [], risk_assessment = ''medium''\<rparr>)]
     [(''gpt4'', 0.5), (''deepseek'', 0.5)] = Inr [(''gpt4'', 1 / 2), (''deepseek'', 1 / 2)]"
    by (simp add: calculate_dynamic_weights_def)
qed

text \<open>
  C5. The validator accepts a raw forecast whose predicted outcome is not one of the three
  tokens: the forecast passes validation and is collected for the ensemble, where the vote
  then raises \<open>KeyError\<close>. A forecast with an out-of-range confidence or a missing required
  key is dropped.
\<close>

theorem invalid_outcome_token_accepted:
  "validate_and_format_prediction
     \<lparr>raw_predicted_outcome = Some ''HOME'', raw_score_prediction = Some \<lparr>home = 2, away = 1\<rparr>,
      raw_confidence = Some 0.8, raw_reasoning = Some [''form''], raw_key_factors = None,
      raw_risk_assessment = None\<rparr> =
   Inr \<lparr>score_prediction = \<lparr>home = 2, away = 1\<rparr>, predicted_outcome = ''HOME'', confidence = 0.8,
        reasoning = [''form''], key_factors = [], risk_assessment = ''medium''\<rparr> \<and>
   collect_predictions
     \<lparr>raw_predicted_outcome = Some ''HOME'', raw_score_prediction = Some \<lparr>home = 2, away = 1\<rparr>,
      raw_confidence = Some 0.8, raw_reasoning = Some [''form''], raw_key_factors = None,
      raw_risk_assessment = None\<rparr>
     \<lparr>raw_predicted_outcome = Some ''draw'', raw_score_prediction = Some \<lparr>home = 1, away = 1\<rparr>,
      raw_confidence = Some 1.5, raw_reasoning = Some [], raw_key_factors = None,
      raw_risk_assessment = None\<rparr> =
   [(''gpt4'', \<lparr>score_prediction = \<lparr>home = 2, away = 1\<rparr>, predicted_outcome = ''HOME'',
               confidence = 0.8, reasoning = [''form''], key_factors = [],
               risk_assessment = ''medium''\<rparr>)] \<and>
   advanced_ensemble AI_ENSEMBLE_WEIGHTS
     [(''gpt4'', \<lparr>score_prediction = \<lparr>home = 2, away = 1\<rparr>, predicted_outcome = ''HOME'',
                 confidence = 0.8, reasoning = [''form''], key_factors = [],
                 risk_assessment = ''medium''\<rparr>)] = Inl KeyError"
  by (simp add: validate_and_format_prediction_def collect_predictions_def get_gpt4_prediction_def
      get_deepseek_prediction_def advanced_ensemble_def calculate_dynamic_weights_def
      AI_ENSEMBLE_WEIGHTS_def weighted_aggregate_def initial_aggregate_state_def)

text \<open>
  When every model of the weight map contributed a forecast, the outcome probabilities do sum
  to 1.
\<close>

lemma adjust_weights_keys:
  "set (map fst (adjust_weights ps weights)) = set (map fst weights) \<union> set (map fst ps)"
proof (induction ps arbitrary: weights)
  case Nil
  show ?case by simp
next
  case (Cons a ps)
  obtain model pred where a: "a = (model, pred)" by (cases a)
  define x where "x = (case map_of weights model of None \<Rightarrow> 0.5 | Some w \<Rightarrow> w) *
      min (max (confidence pred) 0.5) 1.0"
  have "set (map fst (adjust_weights (a # ps) weights)) =
      set (map fst (adjust_weights ps (AList.update model x weights)))"
    by (simp add: a x_def Let_def)
  also have "\<dots> = set (map fst (AList.update model x weights)) \<union> set (map fst ps)"
    by (rule Cons.IH)
  also have "set (map fst (AList.update model x weights)) = {model} \<union> set (map fst weights)"
    using dom_update [of model x weights] by simp
  finally show ?case by (auto simp: a)
qed

lemma adjust_weights_distinct:
  "distinct (map fst weights) \<Longrightarrow> distinct (map fst (adjust_weights ps weights))"
proof (induction ps arbitrary: weights)
  case Nil
  then show ?case by simp
next
  case (Cons a ps)
  obtain model pred where a: "a = (model, pred)" by (cases a)
  show ?case unfolding a using Cons.prems
    by (simp add: Let_def Cons.IH distinct_update)
qed

lemma normalised_sum:
  "sum_list (map snd (map (\<lambda>(k, v). (k, v / t)) ws)) = sum_list (map snd ws) / (t :: real)"
  by (induction ws) (auto simp: add_divide_distrib)

lemma update_mass_sum:
  "map_of al k = Some m \<Longrightarrow>
   sum_list (map snd (AList.update k (m + w) al)) = sum_list (map snd al) + (w :: real)"
  by (induction al) (auto split: if_splits)

lemma aggregate_loop_mass_sum:
  "aggregate_loop ps weights st = Inr st' \<Longrightarrow>
   sum_list (map snd (outcome_mass st')) =
     sum_list (map snd (outcome_mass st)) + sum_list (map (\<lambda>p. weight_of weights (fst p)) ps)"
proof (induction ps arbitrary: st)
  case Nil
  then show ?case by simp
next
  case (Cons a ps)
  obtain model pred where a: "a = (model, pred)" by (cases a)
  from Cons.prems a obtain weight mass where
    w: "map_of weights model = Some weight" and
    m: "map_of (outcome_mass st) (predicted_outcome pred) = Some mass"
    by (auto split: option.splits)
  let ?st = "\<lparr>combined_scores_home =
                    combined_scores_home st + of_int (home (score_prediction pred)) * weight,
                  combined_scores_away =
                    combined_scores_away st + of_int (away (score_prediction pred)) * weight,
                  combined_confidence = combined_confidence st + confidence pred * weight,
                  outcome_mass = AList.update (predicted_outcome pred) (mass + weight) (outcome_mass st),
                  all_reasoning = all_reasoning st @ reasoning pred,
                  all_factors = all_factors st @ key_factors pred\<rparr>"
  from Cons.prems a w m have "aggregate_loop ps weights ?st = Inr st'" by simp
  from Cons.IH [OF this] have "sum_list (map snd (outcome_mass st')) =
     sum_list (map snd (outcome_mass ?st)) + sum_list (map (\<lambda>p. weight_of weights (fst p)) ps)" .
  also have "sum_list (map snd (outcome_mass ?st)) = sum_list (map snd (outcome_mass st)) + weight"
    using m by (simp add: update_mass_sum)
  finally show ?case using w by (simp add: a weight_of_def)
qed

lemma weight_of_keys_sum:
  "distinct (map fst weights) \<Longrightarrow>
   sum_list (map (weight_of weights) (map fst weights)) = sum_list (map snd weights)"
proof (induction weights)
  case Nil
  show ?case by simp
next
  case (Cons a weights)
  obtain k v where a: "a = (k, v)" by (cases a)
  from Cons.prems a have nk: "k \<notin> set (map fst weights)" and d: "distinct (map fst weights)"
    by simp_all
  have e: "map (weight_of ((k, v) # weights)) (map fst weights) =
        map (weight_of weights) (map fst weights)"
    using nk by (auto simp: weight_of_def)
  have h: "weight_of ((k, v) # weights) k = v" by (simp add: weight_of_def)
  have "sum_list (map (weight_of (a # weights)) (map fst (a # weights))) =
      weight_of ((k, v) # weights) k +
      sum_list (map (weight_of ((k, v) # weights)) (map fst weights))"
    by (simp add: a)
  also have "\<dots> = v + sum_list (map snd weights)"
    by (simp only: e h Cons.IH [OF d])
  finally show ?case by (simp add: a)
qed

lemma full_ensemble_mass_sums_to_one:
  assumes r: "advanced_ensemble base_weights predictions = Inr r"
    and ne: "predictions \<noteq> []"
    and dp: "distinct (map fst predictions)"
    and db: "distinct (map fst base_weights)"
    and sub: "set (map fst base_weights) \<subseteq> set (map fst predictions)"
  shows "sum_list (map snd (outcome_probabilities r)) = 1"
proof -
  from r obtain W where
    W: "calculate_dynamic_weights predictions base_weights = Inr W" and
    a: "weighted_aggregate predictions W = Inr r"
    unfolding advanced_ensemble_def py_bind_eq_Inr by blast
  define ws where "ws = adjust_weights predictions base_weights"
  define t where "t = sum_list (map snd ws)"
  from adjust_weights_keys [of predictions base_weights] sub
  have keys: "set (map fst ws) = set (map fst predictions)" by (auto simp: ws_def)
  with ne have "ws \<noteq> []" by auto
  with W have t: "t \<noteq> 0" and Wd: "W = map (\<lambda>(k, v). (k, v / t)) ws"
    by (auto simp: calculate_dynamic_weights_def Let_def ws_def t_def split: if_splits)
  have fstW: "map fst W = map fst ws" by (simp add: Wd case_prod_beta comp_def)
  from adjust_weights_distinct [OF db] have dW: "distinct (map fst W)"
    by (simp add: fstW ws_def)
  have "sum_list (map snd W) = t / t"
    by (simp only: Wd normalised_sum t_def [symmetric])
  with t have sW: "sum_list (map snd W) = 1" by simp
  from weighted_aggregate_Inr [OF a] obtain st where
    l: "aggregate_loop predictions W initial_aggregate_state = Inr st" and
    o: "outcome_probabilities r = outcome_mass st" by blast
  from aggregate_loop_mass_sum [OF l] have
    "sum_list (map snd (outcome_mass st)) = sum_list (map (\<lambda>p. weight_of W (fst p)) predictions)"
    by (simp add: initial_aggregate_state_def)
  also have "\<dots> = sum_list (map (weight_of W) (map fst predictions))" by (simp add: comp_def)
  also have "\<dots> = sum (weight_of W) (set (map fst predictions))"
    using dp by (rule sum_list_distinct_conv_sum_set)
  also have "\<dots> = sum (weight_of W) (set (map fst W))" by (simp only: fstW keys)
  also have "\<dots> = sum_list (map (weight_of W) (map fst W))"
    using dW by (rule sum_list_distinct_conv_sum_set [symmetric])
  also have "\<dots> = 1" using dW sW by (simp only: weight_of_keys_sum)
  finally show ?thesis by (simp only: o)
qed

text \<open>
  C1. With the configured weight map and a forecast from \<open>gpt4\<close> only, the weights are
  normalised over both models, so the outcome probabilities sum to 6/11 and not to 1.
\<close>

theorem partial_ensemble_mass_below_one:
  "advanced_ensemble AI_ENSEMBLE_WEIGHTS
     [(''gpt4'', \<lparr>score_prediction = \<lparr>home = 2, away = 1\<rparr>, predicted_outcome = ''home_win'',
                 confidence = 0.8, reasoning = [''form''], key_factors = [],
                 risk_assessment = ''medium''\<rparr>)] =
   Inr \<lparr>score_prediction = \<lparr>home = 1, away = 1\<rparr>, predicted_outcome = ''home_win'',
        confidence = 24 / 55, reasoning = [''form''], key_factors = [], risk_assessment = ''low'',
        model_agreement = True, consistency_score = 1,
        outcome_probabilities = [(''home_win'', 6 / 11), (''draw'', 0), (''away_win'', 0)]\<rparr> \<and>
   sum_list (map snd [(''home_win'', 6 / 11 :: real), (''draw'', 0), (''away_win'', 0)]) = 6 / 11"
  by (simp add: advanced_ensemble_def calculate_dynamic_weights_def AI_ENSEMBLE_WEIGHTS_def
      weighted_aggregate_def initial_aggregate_state_def py_max_item_def
      calculate_consistency_def assess_risk_def np_mean_def py_round_def)

section \<open>Derived markets\<close>

lemma predict_detailed_corners_confidence:
  "predict_detailed_corners attacking_strength md = Inr v \<Longrightarrow>
   \<exists>d. v = PyDict d \<and> map_of d ''confidence'' = Some (PyFloat 0.75)"
  unfolding predict_detailed_corners_def Let_def py_bind_eq_Inr
  by (auto split: if_splits)

lemma predict_possession_confidence:
  "predict_possession md = Inr v \<Longrightarrow>
   \<exists>d. v = PyDict d \<and> map_of d ''confidence'' = Some (PyFloat 0.65)"
  unfolding predict_possession_def Let_def py_bind_eq_Inr
  by (auto split: if_splits)

lemma predict_detailed_cards_confidence:
  "\<exists>d. predict_detailed_cards md = PyDict d \<and> map_of d ''confidence'' = Some (PyFloat 0.7)"
  by (simp add: predict_detailed_cards_def Let_def)

lemma predict_shots_confidence:
  "\<exists>d. predict_shots md = PyDict d \<and> map_of d ''confidence'' = Some (PyFloat 0.6)"
  by (simp add: predict_shots_def Let_def)

lemma get_additional_predictions_Inr:
  assumes "get_additional_predictions attacking_strength md base = Inr predictions"
  shows "\<exists>corners possession.
    predict_detailed_corners attacking_strength md = Inr corners \<and>
    predict_possession md = Inr possession \<and>
    map_of predictions ''over_under'' =
      Some (PyDict
        [(''total_goals'', PyInt (home (score_prediction base) + away (score_prediction base))),
         (''over_2_5'', PyBool (2.5 < (of_int (home (score_prediction base) + away (score_prediction base)) :: real))),
         (''over_3_5'', PyBool (3.5 < (of_int (home (score_prediction base) + away (score_prediction base)) :: real))),
         (''over_1_5'', PyBool (1.5 < (of_int (home (score_prediction base) + away (score_prediction base)) :: real))),
         (''under_1_5'', PyBool ((of_int (home (score_prediction base) + away (score_prediction base)) :: real) < 1.5)),
         (''under_2_5'', PyBool ((of_int (home (score_prediction base) + away (score_prediction base)) :: real) < 2.5)),
         (''confidence'', PyFloat (confidence base * 0.9))]) \<and>
    map_of predictions ''btts'' =
      Some (PyDict
        [(''prediction'', PyBool (0 < home (score_prediction base) \<and> 0 < away (score_prediction base))),
         (''confidence'', PyFloat (confidence base * 0.85)),
         (''both_score_ht'', PyBool False),
         (''both_score_either_half'', PyBool False)]) \<and>
    map_of predictions ''first_half'' =
      Some (PyDict
        [(''home_score'', PyInt (py_round (of_int (home (score_prediction base)) * 0.4))),
         (''away_score'', PyInt (py_round (of_int (away (score_prediction base)) * 0.4))),
         (''confidence'', PyFloat (confidence base * 0.7)),
         (''most_goals'', PyStr ''first_half'')]) \<and>
    map_of predictions ''corners'' = Some corners \<and>
    map_of predictions ''cards'' = Some (predict_detailed_cards md) \<and>
    map_of predictions ''possession'' = Some possession \<and>
    map_of predictions ''shots'' = Some (predict_shots md)"
  using assms unfolding get_additional_predictions_def Let_def py_bind_eq_Inr
  by auto

lemma sample_additional_predictions:
  "get_additional_predictions calculate_team_attacking_strength
     \<lparr>home_team = Some \<lparr>rating = Some 85.5, form = Some ''WWDLW'', home_advantage = Some 1.1\<rparr>,
      away_team = Some \<lparr>rating = Some 86.0, form = Some ''DWWWD'', home_advantage = Some 1.0\<rparr>,
      attacking_style = Some ''wing_play'', is_derby = Some True, match_importance = Some ''high'',
      attacking_factor = Some 1.2\<rparr>
     \<lparr>score_prediction = \<lparr>home = 2, away = 1\<rparr>, predicted_outcome = ''home_win'', confidence = 0.5,
      reasoning = [], key_factors = [], risk_assessment = ''medium'', model_agreement = True,
      consistency_score = 1,
      outcome_probabilities = [(''home_win'', 1), (''draw'', 0), (''away_win'', 0)]\<rparr> =
   Inr [(''over_under'', PyDict
          [(''total_goals'', PyInt 3), (''over_2_5'', PyBool True), (''over_3_5'', PyBool False),
           (''over_1_5'', PyBool True), (''under_1_5'', PyBool False), (''under_2_5'', PyBool False),
           (''confidence'', PyFloat (9 / 20))]),
        (''btts'', PyDict
          [(''prediction'', PyBool True), (''confidence'', PyFloat (17 / 40)),
           (''both_score_ht'', PyBool False), (''both_score_either_half'', PyBool False)]),
        (''first_half'', PyDict
          [(''home_score'', PyInt 1), (''away_score'', PyInt 0), (''confidence'', PyFloat (7 / 20)),
           (''most_goals'', PyStr ''first_half'')]),
        (''corners'', PyDict
          [(''total'', PyInt 12), (''home_team'', PyInt 6), (''away_team'', PyInt 6),
           (''over_8_5'', PyBool True), (''over_10_5'', PyBool True), (''first_half'', PyInt 5),
           (''second_half'', PyInt 7), (''confidence'', PyFloat (3 / 4))]),
        (''cards'', PyDict
          [(''total'', PyInt 6), (''yellow_cards'', PyInt 5), (''red_cards'', PyInt 1),
           (''first_yellow_before'', PyStr ''30''), (''home_team'', PyInt 3), (''away_team'', PyInt 3),
           (''confidence'', PyFloat (7 / 10))]),
        (''possession'', PyDict
          [(''home_team'', PyInt 50), (''away_team'', PyInt 50),
           (''dominant_team'', PyStr ''balanced''), (''confidence'', PyFloat (13 / 20))]),
        (''shots'', PyDict
          [(''total_shots'', PyInt 14), (''on_target'', PyInt 6), (''home_team'', PyInt 8),
           (''away_team'', PyInt 6), (''confidence'', PyFloat (3 / 5))]),
        (''clean_sheet'', PyBool False), (''win_to_nil'', PyBool False),
        (''goal_timing'', PyStr ''early''), (''player_goals'', PyDict []),
        (''confidence_intervals'', PyDict
          [(''corners'', PyDict
             [(''lower_bound'', PyInt 9), (''upper_bound'', PyInt 15),
              (''confidence_level'', PyFloat (19 / 20))]),
           (''cards'', PyDict
             [(''lower_bound'', PyInt 4), (''upper_bound'', PyInt 8),
              (''confidence_level'', PyFloat (19 / 20))])]),
        (''correlation_analysis'', PyDict
          [(''corners'', PyDict [(''cards'', PyFloat (1 / 2))]),
           (''cards'', PyDict [(''corners'', PyFloat (1 / 2))])])]"
  by (simp add: get_additional_predictions_def predict_detailed_corners_def predict_corners_def
      predict_detailed_cards_def predict_cards_def predict_possession_def predict_shots_def
      calculate_team_attacking_strength_def calculate_team_strength_def
      calculate_form_strength_def form_values_def analyze_prediction_correlations_def
      calculate_prediction_correlation_def correlations_value_def norm_ppf_975_def
      py_round_def py_round2_def Let_def)

lemma market_confidences_of_result:
  assumes "get_additional_predictions attacking_strength md base = Inr predictions"
    and "0 \<le> confidence base"
  shows "market_confidence predictions ''over_under'' = Some (confidence base * 0.9) \<and>
    market_confidence predictions ''btts'' = Some (confidence base * 0.85) \<and>
    market_confidence predictions ''first_half'' = Some (confidence base * 0.7) \<and>
    confidence base * 0.9 \<le> confidence base \<and>
    confidence base * 0.85 \<le> confidence base \<and>
    confidence base * 0.7 \<le> confidence base \<and>
    market_confidence predictions ''corners'' = Some 0.75 \<and>
    market_confidence predictions ''cards'' = Some 0.7 \<and>
    market_confidence predictions ''possession'' = Some 0.65 \<and>
    market_confidence predictions ''shots'' = Some 0.6"
proof -
  from get_additional_predictions_Inr [OF assms(1)] obtain corners possession where
    c: "predict_detailed_corners attacking_strength md = Inr corners" and
    p: "predict_possession md = Inr possession" and
    m: "map_of predictions ''over_under'' =
      Some (PyDict
        [(''total_goals'', PyInt (home (score_prediction base) + away (score_prediction base))),
         (''over_2_5'', PyBool (2.5 < (of_int (home (score_prediction base) + away (score_prediction base)) :: real))),
         (''over_3_5'', PyBool (3.5 < (of_int (home (score_prediction base) + away (score_prediction base)) :: real))),
         (''over_1_5'', PyBool (1.5 < (of_int (home (score_prediction base) + away (score_prediction base)) :: real))),
         (''under_1_5'', PyBool ((of_int (home (score_prediction base) + away (score_prediction base)) :: real) < 1.5)),
         (''under_2_5'', PyBool ((of_int (home (score_prediction base) + away (score_prediction base)) :: real) < 2.5)),
         (''confidence'', PyFloat (confidence base * 0.9))])"
      "map_of predictions ''btts'' =
      Some (PyDict
        [(''prediction'', PyBool (0 < home (score_prediction base) \<and> 0 < away (score_prediction base))),
         (''confidence'', PyFloat (confidence base * 0.85)),
         (''both_score_ht'', PyBool False),
         (''both_score_either_half'', PyBool False)])"
      "map_of predictions ''first_half'' =
      Some (PyDict
        [(''home_score'', PyInt (py_round (of_int (home (score_prediction base)) * 0.4))),
         (''away_score'', PyInt (py_round (of_int (away (score_prediction base)) * 0.4))),
         (''confidence'', PyFloat (confidence base * 0.7)),
         (''most_goals'', PyStr ''first_half'')])" and
    k: "map_of predictions ''corners'' = Some corners"
       "map_of predictions ''cards'' = Some (predict_detailed_cards md)"
       "map_of predictions ''possession'' = Some possession"
       "map_of predictions ''shots'' = Some (predict_shots md)"
    by blast
  have 1: "market_confidence predictions ''over_under'' = Some (confidence base * 0.9)"
    by (simp add: market_confidence_def m(1))
  have 2: "market_confidence predictions ''btts'' = Some (confidence base * 0.85)"
    by (simp add: market_confidence_def m(2))
  have 3: "market_confidence predictions ''first_half'' = Some (confidence base * 0.7)"
    by (simp add: market_confidence_def m(3))
  from predict_detailed_corners_confidence [OF c] obtain d1 where
    "corners = PyDict d1" "map_of d1 ''confidence'' = Some (PyFloat 0.75)" by blast
  then have 4: "market_confidence predictions ''corners'' = Some 0.75"
    by (simp add: market_confidence_def k(1))
  from predict_detailed_cards_confidence [of md] obtain d2 where
    "predict_detailed_cards md = PyDict d2" "map_of d2 ''confidence'' = Some (PyFloat 0.7)" by blast
  then have 5: "market_confidence predictions ''cards'' = Some 0.7"
    by (simp add: market_confidence_def k(2))
  from predict_possession_confidence [OF p] obtain d3 where
    "possession = PyDict d3" "map_of d3 ''confidence'' = Some (PyFloat 0.65)" by blast
  then have 6: "market_confidence predictions ''possession'' = Some 0.65"
    by (simp add: market_confidence_def k(3))
  from predict_shots_confidence [of md] obtain d4 where
    "predict_shots md = PyDict d4" "map_of d4 ''confidence'' = Some (PyFloat 0.6)" by blast
  then have 7: "market_confidence predictions ''shots'' = Some 0.6"
    by (simp add: market_confidence_def k(4))
  from assms(2) have 8: "confidence base * 0.9 \<le> confidence base"
    "confidence base * 0.85 \<le> confidence base" "confidence base * 0.7 \<le> confidence base"
    by simp_all
  show ?thesis by (intro conjI 1 2 3 4 5 6 7 8)
qed

lemma predict_corners_pos: "0 < predict_corners md"
  by (simp add: predict_corners_def py_round_def split: option.splits)

lemma predict_cards_pos: "0 < predict_cards md"
  by (simp add: predict_cards_def py_round_def)

lemma get_additional_predictions_returns:
  assumes "home_team md = Some hmt" "away_team md = Some awt"
    and "attacking_strength hmt = Inr hs" "attacking_strength awt = Inr as" "hs + as \<noteq> 0"
    and "calculate_team_strength hmt = Inr s1" "calculate_team_strength awt = Inr s2" "s1 + s2 \<noteq> 0"
  shows "\<exists>ps. get_additional_predictions attacking_strength md base = Inr ps"
proof -
  define c where "c = predict_corners md"
  define k where "k = predict_cards md"
  have c: "0 < (of_int c :: real)" and k: "0 < (of_int k :: real)"
    using predict_corners_pos [of md] predict_cards_pos [of md] by (simp_all add: c_def k_def)
  have ck: "(of_int c :: real) + of_int k \<noteq> 0" "(of_int k :: real) + of_int c \<noteq> 0"
    using c k by simp_all
  have corners: "\<exists>v. predict_detailed_corners attacking_strength md = Inr (PyDict ((''total'', PyInt c) # v)) \<and>
      map_of v ''total'' = None \<and> map_of v ''confidence'' = Some (PyFloat 0.75)"
    using assms by (simp add: predict_detailed_corners_def c_def Let_def)
  then obtain v where v: "predict_detailed_corners attacking_strength md = Inr (PyDict ((''total'', PyInt c) # v))"
    "map_of v ''total'' = None" "map_of v ''confidence'' = Some (PyFloat 0.75)" by blast
  have "\<exists>w. predict_possession md = Inr (PyDict w) \<and> map_of w ''total'' = None"
    using assms by (simp add: predict_possession_def Let_def)
  then obtain w where w: "predict_possession md = Inr (PyDict w)" "map_of w ''total'' = None"
    by blast
  have "\<exists>u. predict_detailed_cards md = PyDict ((''total'', PyInt k) # u) \<and>
      map_of u ''total'' = None \<and> map_of u ''confidence'' = Some (PyFloat 0.7)"
    by (simp add: predict_detailed_cards_def k_def Let_def)
  then obtain u where u: "predict_detailed_cards md = PyDict ((''total'', PyInt k) # u)"
    "map_of u ''total'' = None" "map_of u ''confidence'' = Some (PyFloat 0.7)" by blast
  have "\<exists>z. predict_shots md = PyDict z \<and> map_of z ''total'' = None"
    by (simp add: predict_shots_def Let_def)
  then obtain z where z: "predict_shots md = PyDict z" "map_of z ''total'' = None" by blast
  show ?thesis
    using c k ck
    by (simp add: get_additional_predictions_def v w u z Let_def
        analyze_prediction_correlations_def calculate_prediction_correlation_def)
qed

text \<open>
  C2 (amended). The over/under, both-teams-to-score and first-half markets carry the base
  confidence times 0.9, 0.85 and 0.7, which is at most the base confidence whenever that is not
  negative; the corners, cards, possession and shots markets carry the fixed confidences 0.75,
  0.7, 0.65 and 0.6, whatever the base confidence is. The generator returns whenever both teams
  are present and the strengths of the two teams do not add up to zero.
\<close>

theorem derived_market_confidences:
  "(\<forall>predictions.
      get_additional_predictions attacking_strength md base = Inr predictions \<longrightarrow>
      0 \<le> confidence base \<longrightarrow>
        market_confidence predictions ''over_under'' = Some (confidence base * 0.9) \<and>
        market_confidence predictions ''btts'' = Some (confidence base * 0.85) \<and>
        market_confidence predictions ''first_half'' = Some (confidence base * 0.7) \<and>
        confidence base * 0.9 \<le> confidence base \<and>
        confidence base * 0.85 \<le> confidence base \<and>
        confidence base * 0.7 \<le> confidence base \<and>
        market_confidence predictions ''corners'' = Some 0.75 \<and>
        market_confidence predictions ''cards'' = Some 0.7 \<and>
        market_confidence predictions ''possession'' = Some 0.65 \<and>
        market_confidence predictions ''shots'' = Some 0.6) \<and>
   (home_team md = Some hmt \<and> away_team md = Some awt \<and>
    attacking_strength hmt = Inr hs \<and> attacking_strength awt = Inr as \<and> hs + as \<noteq> 0 \<and>
    calculate_team_strength hmt = Inr s1 \<and> calculate_team_strength awt = Inr s2 \<and> s1 + s2 \<noteq> 0 \<longrightarrow>
      (\<exists>predictions. get_additional_predictions attacking_strength md base = Inr predictions))"
proof (intro conjI allI impI)
  fix predictions
  assume "get_additional_predictions attacking_strength md base = Inr predictions"
    "0 \<le> confidence base"
  from market_confidences_of_result [OF this]
  show "market_confidence predictions ''over_under'' = Some (confidence base * 0.9)"
    "market_confidence predictions ''btts'' = Some (confidence base * 0.85)"
    "market_confidence predictions ''first_half'' = Some (confidence base * 0.7)"
    "confidence base * 0.9 \<le> confidence base"
    "confidence base * 0.85 \<le> confidence base"
    "confidence base * 0.7 \<le> confidence base"
    "market_confidence predictions ''corners'' = Some 0.75"
    "market_confidence predictions ''cards'' = Some 0.7"
    "market_confidence predictions ''possession'' = Some 0.65"
    "market_confidence predictions ''shots'' = Some 0.6"
    by blast+
next
  assume "home_team md = Some hmt \<and> away_team md = Some awt \<and>
    attacking_strength hmt = Inr hs \<and> attacking_strength awt = Inr as \<and> hs + as \<noteq> 0 \<and>
    calculate_team_strength hmt = Inr s1 \<and> calculate_team_strength awt = Inr s2 \<and> s1 + s2 \<noteq> 0"
  then show "\<exists>predictions. get_additional_predictions attacking_strength md base = Inr predictions"
    by (elim conjE) (rule get_additional_predictions_returns)
qed

theorem derived_market_confidences_witness:
  "map_sum id
     (\<lambda>ps. map (market_confidence ps)
        [''over_under'', ''btts'', ''first_half'', ''corners'', ''cards'', ''possession'', ''shots''])
     (get_additional_predictions calculate_team_attacking_strength
        \<lparr>home_team = Some \<lparr>rating = Some 85.5, form = Some ''WWDLW'', home_advantage = Some 1.1\<rparr>,
         away_team = Some \<lparr>rating = Some 86.0, form = Some ''DWWWD'', home_advantage = Some 1.0\<rparr>,
         attacking_style = Some ''wing_play'', is_derby = Some True, match_importance = Some ''high'',
         attacking_factor = Some 1.2\<rparr>
        \<lparr>score_prediction = \<lparr>home = 2, away = 1\<rparr>, predicted_outcome = ''home_win'', confidence = 0.5,
         reasoning = [], key_factors = [], risk_assessment = ''medium'', model_agreement = True,
         consistency_score = 1,
         outcome_probabilities = [(''home_win'', 1), (''draw'', 0), (''away_win'', 0)]\<rparr>) =
   Inr [Some (9 / 20), Some (17 / 40), Some (7 / 20), Some (3 / 4), Some (7 / 10), Some (13 / 20),
        Some (3 / 5)]"
proof -
  let ?md = "\<lparr>home_team = Some \<lparr>rating = Some 85.5, form = Some ''WWDLW'', home_advantage = Some 1.1\<rparr>,
         away_team = Some \<lparr>rating = Some 86.0, form = Some ''DWWWD'', home_advantage = Some 1.0\<rparr>,
         attacking_style = Some ''wing_play'', is_derby = Some True, match_importance = Some ''high'',
         attacking_factor = Some 1.2\<rparr>"
  let ?base = "\<lparr>score_prediction = \<lparr>home = 2, away = 1\<rparr>, predicted_outcome = ''home_win'',
         confidence = 0.5, reasoning = [], key_factors = [], risk_assessment = ''medium'',
         model_agreement = True, consistency_score = 1,
         outcome_probabilities = [(''home_win'', 1), (''draw'', 0), (''away_win'', 0)]\<rparr>"
  let ?hmt = "\<lparr>rating = Some 85.5, form = Some ''WWDLW'', home_advantage = Some 1.1\<rparr>"
  let ?awt = "\<lparr>rating = Some 86.0, form = Some ''DWWWD'', home_advantage = Some 1.0\<rparr>"
  have s: "calculate_team_strength ?hmt = Inr (1737 / 50)"
    "calculate_team_strength ?awt = Inr (1747 / 50)"
    by (simp_all add: calculate_team_strength_def calculate_form_strength_def form_values_def)
  then have a: "calculate_team_attacking_strength ?hmt = Inr (1737 / 50)"
    "calculate_team_attacking_strength ?awt = Inr (1747 / 50)"
    by (simp_all only: calculate_team_attacking_strength_def)
  have t: "home_team ?md = Some ?hmt" "away_team ?md = Some ?awt"
    "(1737 / 50 :: real) + 1747 / 50 \<noteq> 0" by simp_all
  from derived_market_confidences
    [of calculate_team_attacking_strength ?md ?base ?hmt ?awt "1737 / 50" "1747 / 50"
        "1737 / 50" "1747 / 50"] s a t
  obtain ps where
    ps: "get_additional_predictions calculate_team_attacking_strength ?md ?base = Inr ps"
    by blast
  have c: "0 \<le> confidence ?base" by simp
  from derived_market_confidences [of calculate_team_attacking_strength ?md ?base] ps c
  have "market_confidence ps ''over_under'' = Some (confidence ?base * 0.9) \<and>
        market_confidence ps ''btts'' = Some (confidence ?base * 0.85) \<and>
        market_confidence ps ''first_half'' = Some (confidence ?base * 0.7) \<and>
        market_confidence ps ''corners'' = Some 0.75 \<and>
        market_confidence ps ''cards'' = Some 0.7 \<and>
        market_confidence ps ''possession'' = Some 0.65 \<and>
        market_confidence ps ''shots'' = Some 0.6"
    by blast
  then have "map (market_confidence ps)
        [''over_under'', ''btts'', ''first_half'', ''corners'', ''cards'', ''possession'', ''shots''] =
      [Some (9 / 20), Some (17 / 40), Some (7 / 20), Some (3 / 4), Some (7 / 10), Some (13 / 20),
       Some (3 / 5)]"
    by simp
  then show ?thesis by (simp only: ps) simp
qed

theorem corners_confidence_above_base:
  "map_sum id (\<lambda>ps. market_confidence ps ''corners'')
     (get_additional_predictions calculate_team_attacking_strength
        \<lparr>home_team = Some \<lparr>rating = Some 85.5, form = Some ''WWDLW'', home_advantage = Some 1.1\<rparr>,
         away_team = Some \<lparr>rating = Some 86.0, form = Some ''DWWWD'', home_advantage = Some 1.0\<rparr>,
         attacking_style = Some ''wing_play'', is_derby = Some True, match_importance = Some ''high'',
         attacking_factor = Some 1.2\<rparr>
        \<lparr>score_prediction = \<lparr>home = 2, away = 1\<rparr>, predicted_outcome = ''home_win'', confidence = 0.5,
         reasoning = [], key_factors = [], risk_assessment = ''medium'', model_agreement = True,
         consistency_score = 1,
         outcome_probabilities = [(''home_win'', 1), (''draw'', 0), (''away_win'', 0)]\<rparr>) =
   Inr (Some (3 / 4)) \<and>
   \<not> (3 / 4 :: real) \<le>
     confidence
       \<lparr>score_prediction = \<lparr>home = 2, away = 1\<rparr>, predicted_outcome = ''home_win'', confidence = 0.5,
        reasoning = [], key_factors = [], risk_assessment = ''medium'', model_agreement = True,
        consistency_score = 1,
        outcome_probabilities = [(''home_win'', 1), (''draw'', 0), (''away_win'', 0)]\<rparr>"
  by (simp only: sample_additional_predictions) (simp add: market_confidence_def)


end
